theory Spec2Isabelle
  imports Complex_Main "HOL-Library.AList" "HOL-Library.Sublist"
begin

section \<open>JavaScript numbers\<close>

text \<open>
  The records of the pipeline hold JavaScript numbers. They are modelled as the reals
  extended by the three special values of IEEE 754, with the special-value rules of the
  arithmetic the source uses (\<open>-\<close>, \<open>*\<close>, \<open>/\<close>, \<open>>\<close>). Arithmetic on finite values is
  exact: rounding, overflow to infinity and the sign of zero are outside the model.
\<close>

datatype jsnum = Num real | PosInf | NegInf | NaN

fun jsub :: "jsnum \<Rightarrow> jsnum \<Rightarrow> jsnum" where
  "jsub (Num x) (Num y) = Num (x - y)"
| "jsub NaN _ = NaN"
| "jsub _ NaN = NaN"
| "jsub PosInf PosInf = NaN"
| "jsub NegInf NegInf = NaN"
| "jsub PosInf _ = PosInf"
| "jsub NegInf _ = NegInf"
| "jsub (Num x) PosInf = NegInf"
| "jsub (Num x) NegInf = PosInf"

fun jmul :: "jsnum \<Rightarrow> jsnum \<Rightarrow> jsnum" where
  "jmul (Num x) (Num y) = Num (x * y)"
| "jmul NaN _ = NaN"
| "jmul _ NaN = NaN"
| "jmul PosInf (Num y) = (if y = 0 then NaN else if 0 < y then PosInf else NegInf)"
| "jmul NegInf (Num y) = (if y = 0 then NaN else if 0 < y then NegInf else PosInf)"
| "jmul (Num x) PosInf = (if x = 0 then NaN else if 0 < x then PosInf else NegInf)"
| "jmul (Num x) NegInf = (if x = 0 then NaN else if 0 < x then NegInf else PosInf)"
| "jmul PosInf PosInf = PosInf"
| "jmul NegInf NegInf = PosInf"
| "jmul PosInf NegInf = NegInf"
| "jmul NegInf PosInf = NegInf"

fun jdiv :: "jsnum \<Rightarrow> jsnum \<Rightarrow> jsnum" where
  "jdiv (Num x) (Num y) =
     (if y = 0 then (if x = 0 then NaN else if 0 < x then PosInf else NegInf)
      else Num (x / y))"
| "jdiv NaN _ = NaN"
| "jdiv _ NaN = NaN"
| "jdiv (Num x) PosInf = Num 0"
| "jdiv (Num x) NegInf = Num 0"
| "jdiv PosInf (Num y) = (if 0 \<le> y then PosInf else NegInf)"
| "jdiv NegInf (Num y) = (if 0 \<le> y then NegInf else PosInf)"
| "jdiv _ _ = NaN"

text \<open>\<open>jgt a b\<close> is the comparison \<open>a > b\<close>: false whenever an operand is NaN.\<close>

fun jgt :: "jsnum \<Rightarrow> jsnum \<Rightarrow> bool" where
  "jgt (Num x) (Num y) = (y < x)"
| "jgt NaN _ = False"
| "jgt _ NaN = False"
| "jgt PosInf PosInf = False"
| "jgt PosInf _ = True"
| "jgt NegInf _ = False"
| "jgt (Num x) PosInf = False"
| "jgt (Num x) NegInf = True"

section \<open>The canonical records (shared/schema)\<close>

text \<open>
  One record per zod schema. \<open>marketDataSchema\<close> lists ten fields; \<open>tickerDataSchema\<close>
  lists the same ten and, after them, \<open>spread\<close> and \<open>spreadPercent\<close>.

  The schemas type \<open>name\<close> as a string. At run time it is what the lookup of the pair
  in the table of display names yields: a string, or, for a pair named like a member
  of \<open>Object.prototype\<close>, that inherited member (a function, or the prototype object
  itself), which is not a string.
\<close>

datatype display_name = Name string | Inherited string

record MarketData =
  pair :: string
  name :: display_name
  lastPrice :: jsnum
  change24h :: jsnum
  changePercent24h :: jsnum
  volume24h :: jsnum
  high24h :: jsnum
  low24h :: jsnum
  bid :: jsnum
  ask :: jsnum

record TickerData =
  pair :: string
  name :: display_name
  lastPrice :: jsnum
  change24h :: jsnum
  changePercent24h :: jsnum
  volume24h :: jsnum
  high24h :: jsnum
  low24h :: jsnum
  bid :: jsnum
  ask :: jsnum
  spread :: jsnum
  spreadPercent :: jsnum

record OrderBookEntry =
  price :: jsnum
  volume :: jsnum
  timestamp :: real

record OrderBook =
  pair :: string
  asks :: "OrderBookEntry list"
  bids :: "OrderBookEntry list"
  spread :: jsnum
  spreadPercent :: jsnum

datatype side = buy | sell

record Trade =
  price :: jsnum
  volume :: jsnum
  time :: real
  side :: side

record RecentTrades =
  pair :: string
  trades :: "Trade list"

text \<open>
  What a consumer of a ticker record can observe is the JSON object the gateway emits for
  it (\<open>res.json\<close>, \<open>JSON.stringify\<close>): the own properties of the object literal that built
  the record, in the literal's order. A property that is not listed reads as
  \<open>undefined\<close>. A name that is an inherited member is listed as such: it is not a
  JSON value (\<open>JSON.stringify\<close> leaves out a property that holds a function).
\<close>

datatype json = JString string | JNumber jsnum | JInherited string

definition name_json :: "display_name \<Rightarrow> json" where
  "name_json n = (case n of Name str \<Rightarrow> JString str | Inherited m \<Rightarrow> JInherited m)"

definition MarketData_json :: "MarketData \<Rightarrow> (string \<times> json) list" where
  "MarketData_json r =
     [(''pair'', JString (MarketData.pair r)),
      (''name'', name_json (MarketData.name r)),
      (''lastPrice'', JNumber (MarketData.lastPrice r)),
      (''change24h'', JNumber (MarketData.change24h r)),
      (''changePercent24h'', JNumber (MarketData.changePercent24h r)),
      (''volume24h'', JNumber (MarketData.volume24h r)),
      (''high24h'', JNumber (MarketData.high24h r)),
      (''low24h'', JNumber (MarketData.low24h r)),
      (''bid'', JNumber (MarketData.bid r)),
      (''ask'', JNumber (MarketData.ask r))]"

definition TickerData_json :: "TickerData \<Rightarrow> (string \<times> json) list" where
  "TickerData_json r =
     [(''pair'', JString (TickerData.pair r)),
      (''name'', name_json (TickerData.name r)),
      (''lastPrice'', JNumber (TickerData.lastPrice r)),
      (''change24h'', JNumber (TickerData.change24h r)),
      (''changePercent24h'', JNumber (TickerData.changePercent24h r)),
      (''volume24h'', JNumber (TickerData.volume24h r)),
      (''high24h'', JNumber (TickerData.high24h r)),
      (''low24h'', JNumber (TickerData.low24h r)),
      (''bid'', JNumber (TickerData.bid r)),
      (''ask'', JNumber (TickerData.ask r)),
      (''spread'', JNumber (TickerData.spread r)),
      (''spreadPercent'', JNumber (TickerData.spreadPercent r))]"

section \<open>The Snapshot Store (MemStorage)\<close>

text \<open>
  A JavaScript \<open>Map\<close> keeps its keys in insertion order, and \<open>set\<close> on a resident key
  replaces the value in place: an association list under \<open>AList.update\<close>, read by
  \<open>map_of\<close>. \<open>lastUpdated\<close> is a \<open>Date\<close> (milliseconds since the epoch) or
  \<open>undefined\<close>.
\<close>

record MemStorage =
  tickerData :: "(string \<times> TickerData) list"
  orderBooks :: "(string \<times> OrderBook) list"
  recentTrades :: "(string \<times> RecentTrades) list"
  marketData :: "MarketData list"
  lastUpdated :: "nat option"

definition MemStorage_new :: MemStorage where
  "MemStorage_new =
     \<lparr>tickerData = [], orderBooks = [], recentTrades = [], marketData = [],
      lastUpdated = None\<rparr>"

definition setTickerData :: "string \<Rightarrow> TickerData \<Rightarrow> MemStorage \<Rightarrow> MemStorage" where
  "setTickerData pr d st = st\<lparr>tickerData := AList.update pr d (tickerData st)\<rparr>"

definition getTickerData :: "MemStorage \<Rightarrow> string \<Rightarrow> TickerData option" where
  "getTickerData st pr = map_of (tickerData st) pr"

definition getAllTickerData :: "MemStorage \<Rightarrow> TickerData list" where
  "getAllTickerData st = map snd (tickerData st)"

definition setOrderBook :: "string \<Rightarrow> OrderBook \<Rightarrow> MemStorage \<Rightarrow> MemStorage" where
  "setOrderBook pr d st = st\<lparr>orderBooks := AList.update pr d (orderBooks st)\<rparr>"

definition getOrderBook :: "MemStorage \<Rightarrow> string \<Rightarrow> OrderBook option" where
  "getOrderBook st pr = map_of (orderBooks st) pr"

definition setRecentTrades :: "string \<Rightarrow> RecentTrades \<Rightarrow> MemStorage \<Rightarrow> MemStorage" where
  "setRecentTrades pr d st = st\<lparr>recentTrades := AList.update pr d (recentTrades st)\<rparr>"

definition getRecentTrades :: "MemStorage \<Rightarrow> string \<Rightarrow> RecentTrades option" where
  "getRecentTrades st pr = map_of (recentTrades st) pr"

definition setMarketData :: "MarketData list \<Rightarrow> MemStorage \<Rightarrow> MemStorage" where
  "setMarketData d st = st\<lparr>marketData := d\<rparr>"

definition getMarketData :: "MemStorage \<Rightarrow> MarketData list" where
  "getMarketData st = marketData st"

definition getLastUpdated :: "MemStorage \<Rightarrow> nat option" where
  "getLastUpdated st = lastUpdated st"

definition setLastUpdated :: "nat \<Rightarrow> MemStorage \<Rightarrow> MemStorage" where
  "setLastUpdated date st = st\<lparr>lastUpdated := Some date\<rparr>"

section \<open>The Upstream Client (KrakenApiService)\<close>

subsection \<open>Upstream payloads and the envelope\<close>

text \<open>
  The \<open>result\<close> of a response is a JSON object keyed by the exchange's pair symbols:
  an association list of its entries in key order (what \<open>Object.keys\<close> enumerates),
  with distinct keys. A ticker entry holds arrays of decimal strings (\<open>a\<close>, \<open>b\<close>, \<open>c\<close>,
  \<open>v\<close>, \<open>l\<close>, \<open>h\<close>) and the string \<open>o\<close>; a depth entry holds the \<open>asks\<close> and
  \<open>bids\<close> levels \<open>[price, volume, timestamp]\<close>; a trades entry is a list of trades, of
  which the source reads \<open>[price, volume, time, side]\<close>.
\<close>

record raw_ticker =
  raw_a :: "string list"
  raw_b :: "string list"
  raw_c :: "string list"
  raw_v :: "string list"
  raw_l :: "string list"
  raw_h :: "string list"
  raw_o :: string

type_synonym ticker_result = "(string \<times> raw_ticker) list"

type_synonym raw_level = "string \<times> string \<times> real"

record raw_depth =
  raw_asks :: "raw_level list"
  raw_bids :: "raw_level list"

type_synonym depth_result = "(string \<times> raw_depth) list"

type_synonym raw_trade = "string \<times> string \<times> real \<times> string"

type_synonym trades_result = "(string \<times> raw_trade list) list"

text \<open>
  \<open>krakenApiErrorSchema\<close>: the envelope has the list \<open>error\<close> and an optional
  \<open>result\<close>. A response whose body is not JSON, or not an envelope, has no envelope
  (\<open>body = None\<close>). \<open>fetch\<close> itself may reject.
\<close>

record 'r envelope =
  error :: "string list"
  result :: "'r option"

record 'r response =
  ok :: bool
  status :: nat
  statusText :: string
  body :: "'r envelope option"

datatype 'r fetched = FetchRejected | Fetched "'r response"

datatype error =
    NetworkError
  | HttpError nat string
  | InvalidBody
  | KrakenApiError "string list"
  | TypeError
  | NoDataFound string

text \<open>
  \<open>makeRequest\<close>, as a function of what its \<open>fetch\<close> receives: it throws on a status
  that is not ok, on a body that does not parse, and on a non-empty error list; else it
  returns the envelope's \<open>result\<close>, which may be missing. (The rate-limit gate before
  the \<open>fetch\<close> only delays the call and is not modelled.)
\<close>

definition makeRequest :: "'r fetched \<Rightarrow> error + 'r option" where
  "makeRequest f =
     (case f of
        FetchRejected \<Rightarrow> Inl NetworkError
      | Fetched response \<Rightarrow>
          if \<not> ok response then Inl (HttpError (status response) (statusText response))
          else (case body response of
                  None \<Rightarrow> Inl InvalidBody
                | Some validatedData \<Rightarrow>
                    if length (error validatedData) > 0
                    then Inl (KrakenApiError (error validatedData))
                    else Inr (result validatedData)))"

subsection \<open>Normalisation\<close>

text \<open>
  \<open>parseFloat\<close> is the builtin: the functions take it as the parameter \<open>pf\<close>.
  \<open>parseFloat(xs[i])\<close> on an index out of range reads \<open>undefined\<close> and gives NaN.
\<close>

definition parseFloat_at :: "(string \<Rightarrow> jsnum) \<Rightarrow> string list \<Rightarrow> nat \<Rightarrow> jsnum" where
  "parseFloat_at pf xs i = (if i < length xs then pf (xs ! i) else NaN)"

text \<open>
  The tables of the client (\<open>names\<close>, \<open>krakenPairMap\<close>) are object literals, so a
  lookup \<open>table[pair]\<close> also finds the members the table inherits from
  \<open>Object.prototype\<close>: for a pair with one of these twelve names it yields that
  member, which is truthy, and neither a string nor iterable.
\<close>

definition object_prototype_names :: "string list" where
  "object_prototype_names =
     [''constructor'', ''__defineGetter__'', ''__defineSetter__'', ''hasOwnProperty'',
      ''__lookupGetter__'', ''__lookupSetter__'', ''isPrototypeOf'',
      ''propertyIsEnumerable'', ''toString'', ''valueOf'', ''__proto__'',
      ''toLocaleString'']"

definition names :: "(string \<times> string) list" where
  "names =
     [(''XBTUSD'', ''Bitcoin''), (''ETHUSD'', ''Ethereum''), (''ADAUSD'', ''Cardano''),
      (''DOTUSD'', ''Polkadot''), (''SOLUSD'', ''Solana''), (''MATICUSD'', ''Polygon''),
      (''LINKUSD'', ''Chainlink''), (''UNIUSD'', ''Uniswap''),
      (''BTC/USD'', ''Bitcoin''), (''ETH/USD'', ''Ethereum''), (''ADA/USD'', ''Cardano''),
      (''DOT/USD'', ''Polkadot''), (''SOL/USD'', ''Solana''), (''MATIC/USD'', ''Polygon''),
      (''LINK/USD'', ''Chainlink''), (''UNI/USD'', ''Uniswap'')]"

text \<open>
  \<open>names[pair] || pair.split('/')[0]\<close>: the inherited member for a pair named like
  one, else the table's own entry, else the pair up to its first slash.
\<close>

definition getPairDisplayName :: "string \<Rightarrow> display_name" where
  "getPairDisplayName pr =
     (if pr \<in> set object_prototype_names then Inherited pr
      else case map_of names pr of
        Some n \<Rightarrow> Name n
      | None \<Rightarrow> Name (takeWhile (\<lambda>ch. ch \<noteq> CHR ''/'') pr))"

text \<open>The object literal that \<open>getTickerData\<close> returns, for the entry \<open>d\<close> it read.\<close>

definition ticker_record :: "(string \<Rightarrow> jsnum) \<Rightarrow> string \<Rightarrow> raw_ticker \<Rightarrow> TickerData" where
  "ticker_record pf pr d =
     \<lparr>TickerData.pair = pr,
      TickerData.name = getPairDisplayName pr,
      TickerData.lastPrice = parseFloat_at pf (raw_c d) 0,
      TickerData.change24h = jsub (parseFloat_at pf (raw_c d) 0) (pf (raw_o d)),
      TickerData.changePercent24h =
        jmul (jdiv (jsub (parseFloat_at pf (raw_c d) 0) (pf (raw_o d))) (pf (raw_o d)))
          (Num 100),
      TickerData.volume24h = parseFloat_at pf (raw_v d) 1,
      TickerData.high24h = parseFloat_at pf (raw_h d) 1,
      TickerData.low24h = parseFloat_at pf (raw_l d) 1,
      TickerData.bid = parseFloat_at pf (raw_b d) 0,
      TickerData.ask = parseFloat_at pf (raw_a d) 0,
      TickerData.spread = jsub (parseFloat_at pf (raw_a d) 0) (parseFloat_at pf (raw_b d) 0),
      TickerData.spreadPercent =
        jmul (jdiv (jsub (parseFloat_at pf (raw_a d) 0) (parseFloat_at pf (raw_b d) 0))
                (parseFloat_at pf (raw_b d) 0))
          (Num 100)\<rparr>"

text \<open>
  \<open>getTickerData\<close>: the entry under the first key of the result. A missing result or
  an empty object makes the field access throw a TypeError.
\<close>

definition krakenApi_getTickerData ::
  "(string \<Rightarrow> jsnum) \<Rightarrow> string \<Rightarrow> ticker_result fetched \<Rightarrow> error + TickerData" where
  "krakenApi_getTickerData pf pr f =
     (case makeRequest f of
        Inl e \<Rightarrow> Inl e
      | Inr None \<Rightarrow> Inl TypeError
      | Inr (Some []) \<Rightarrow> Inl TypeError
      | Inr (Some ((pairKey, d) # _)) \<Rightarrow> Inr (ticker_record pf pr d))"

definition level_entry :: "(string \<Rightarrow> jsnum) \<Rightarrow> raw_level \<Rightarrow> OrderBookEntry" where
  "level_entry pf lv =
     (case lv of (p, v, ts) \<Rightarrow>
        \<lparr>OrderBookEntry.price = pf p, OrderBookEntry.volume = pf v,
         OrderBookEntry.timestamp = ts\<rparr>)"

text \<open>
  \<open>getOrderBook\<close>: the best price of an empty side is taken as 0, and the percentage
  is computed only when the best bid is positive.
\<close>

definition krakenApi_getOrderBook ::
  "(string \<Rightarrow> jsnum) \<Rightarrow> string \<Rightarrow> depth_result fetched \<Rightarrow> error + OrderBook" where
  "krakenApi_getOrderBook pf pr f =
     (case makeRequest f of
        Inl e \<Rightarrow> Inl e
      | Inr None \<Rightarrow> Inl TypeError
      | Inr (Some []) \<Rightarrow> Inl TypeError
      | Inr (Some ((pairKey, d) # _)) \<Rightarrow>
          (let asks = map (level_entry pf) (raw_asks d);
               bids = map (level_entry pf) (raw_bids d);
               bestAsk = (if length asks > 0 then OrderBookEntry.price (asks ! 0) else Num 0);
               bestBid = (if length bids > 0 then OrderBookEntry.price (bids ! 0) else Num 0);
               spread = jsub bestAsk bestBid;
               spreadPercent =
                 (if jgt bestBid (Num 0) then jmul (jdiv spread bestBid) (Num 100) else Num 0)
           in Inr \<lparr>OrderBook.pair = pr, OrderBook.asks = asks, OrderBook.bids = bids,
                   OrderBook.spread = spread, OrderBook.spreadPercent = spreadPercent\<rparr>))"

definition processed_trade :: "(string \<Rightarrow> jsnum) \<Rightarrow> raw_trade \<Rightarrow> Trade" where
  "processed_trade pf tr =
     (case tr of (p, v, tm, sd) \<Rightarrow>
        \<lparr>Trade.price = pf p, Trade.volume = pf v, Trade.time = tm,
         Trade.side = (if sd = ''b'' then buy else sell)\<rparr>)"

definition krakenApi_getRecentTrades ::
  "(string \<Rightarrow> jsnum) \<Rightarrow> string \<Rightarrow> trades_result fetched \<Rightarrow> error + RecentTrades" where
  "krakenApi_getRecentTrades pf pr f =
     (case makeRequest f of
        Inl e \<Rightarrow> Inl e
      | Inr None \<Rightarrow> Inl TypeError
      | Inr (Some []) \<Rightarrow> Inl TypeError
      | Inr (Some ((pairKey, ts) # _)) \<Rightarrow>
          Inr \<lparr>RecentTrades.pair = pr, RecentTrades.trades = map (processed_trade pf) ts\<rparr>)"

subsection \<open>The batch ticker fetch and its pair resolution\<close>

definition krakenPairMap :: "(string \<times> string list) list" where
  "krakenPairMap =
     [(''XBTUSD'', [''XXBTZUSD'', ''XBTUSD'']),
      (''ETHUSD'', [''XETHZUSD'', ''ETHUSD'']),
      (''ADAUSD'', [''ADAUSD'']),
      (''DOTUSD'', [''DOTUSD'']),
      (''SOLUSD'', [''SOLUSD'']),
      (''MATICUSD'', [''MATICUSD'']),
      (''LINKUSD'', [''LINKUSD'']),
      (''UNIUSD'', [''UNIUSD''])]"

text \<open>
  \<open>krakenPairMap[pair] || [pair]\<close>: the table's own entry, else the pair alone. For a
  pair named like a member of \<open>Object.prototype\<close> it is that member, which is not
  iterable (\<open>None\<close>): the \<open>for ... of\<close> over it throws a TypeError.
\<close>

definition possibleKeys :: "string \<Rightarrow> string list option" where
  "possibleKeys pr =
     (if pr \<in> set object_prototype_names then None
      else Some (case map_of krakenPairMap pr of Some ks \<Rightarrow> ks | None \<Rightarrow> [pr]))"

text \<open>
  The alias loop: \<open>pairKey\<close> starts as the empty string and becomes the first of the
  possible keys that the result holds.
\<close>

fun alias_loop :: "ticker_result \<Rightarrow> string list \<Rightarrow> string" where
  "alias_loop res [] = []"
| "alias_loop res (key # keys) =
     (if map_of res key \<noteq> None then key else alias_loop res keys)"

text \<open>\<open>js_includes hay needle\<close> is \<open>hay.includes(needle)\<close>: the needle occurs in \<open>hay\<close>.\<close>

fun js_includes :: "string \<Rightarrow> string \<Rightarrow> bool" where
  "js_includes [] needle = (needle = [])"
| "js_includes (ch # hay) needle = (prefix needle (ch # hay) \<or> js_includes hay needle)"

definition normalizedKey :: "string \<Rightarrow> string" where
  "normalizedKey key = filter (\<lambda>ch. ch \<noteq> CHR ''X'' \<and> ch \<noteq> CHR ''Z'') key"

definition normalizedPair :: "string \<Rightarrow> string" where
  "normalizedPair pr =
     filter (\<lambda>ch. ch \<noteq> CHR ''X'' \<and> ch \<noteq> CHR ''Z'' \<and> ch \<noteq> CHR ''/'') pr"

text \<open>The fallback: the first key of the result that matches fuzzily, else the empty string.\<close>

definition fuzzy_find :: "ticker_result \<Rightarrow> string \<Rightarrow> string" where
  "fuzzy_find res pr =
     (case find (\<lambda>key. js_includes (normalizedKey key) (normalizedPair pr) \<or> js_includes key pr)
             (map fst res) of
        Some key \<Rightarrow> key
      | None \<Rightarrow> [])"

text \<open>
  The resolution of a requested pair against the result: the throw of the
  \<open>for ... of\<close>, or the \<open>pairKey\<close> arrived at. The fallback runs exactly when the
  alias loop left \<open>pairKey\<close> empty (\<open>!pairKey\<close>).
\<close>

definition resolve_pairKey :: "ticker_result \<Rightarrow> string \<Rightarrow> error + string" where
  "resolve_pairKey res pr =
     (case possibleKeys pr of
        None \<Rightarrow> Inl TypeError
      | Some keys \<Rightarrow>
          (let pairKey = alias_loop res keys
           in Inr (if pairKey = [] then fuzzy_find res pr else pairKey)))"

text \<open>The object literal that the callback of \<open>pairs.map\<close> returns.\<close>

definition market_record :: "(string \<Rightarrow> jsnum) \<Rightarrow> string \<Rightarrow> raw_ticker \<Rightarrow> MarketData" where
  "market_record pf pr d =
     \<lparr>MarketData.pair = pr,
      MarketData.name = getPairDisplayName pr,
      MarketData.lastPrice = parseFloat_at pf (raw_c d) 0,
      MarketData.change24h = jsub (parseFloat_at pf (raw_c d) 0) (pf (raw_o d)),
      MarketData.changePercent24h =
        jmul (jdiv (jsub (parseFloat_at pf (raw_c d) 0) (pf (raw_o d))) (pf (raw_o d)))
          (Num 100),
      MarketData.volume24h = parseFloat_at pf (raw_v d) 1,
      MarketData.high24h = parseFloat_at pf (raw_h d) 1,
      MarketData.low24h = parseFloat_at pf (raw_l d) 1,
      MarketData.bid = parseFloat_at pf (raw_b d) 0,
      MarketData.ask = parseFloat_at pf (raw_a d) 0\<rparr>"

text \<open>
  The callback of \<open>pairs.map\<close>: the record of one requested pair, or the throw (a
  TypeError also when the result is missing).
\<close>

definition ticker_of_pair ::
  "(string \<Rightarrow> jsnum) \<Rightarrow> ticker_result option \<Rightarrow> string \<Rightarrow> error + MarketData" where
  "ticker_of_pair pf res_opt pr =
     (case res_opt of
        None \<Rightarrow> Inl TypeError
      | Some res \<Rightarrow>
          (case resolve_pairKey res pr of
             Inl e \<Rightarrow> Inl e
           | Inr pairKey \<Rightarrow>
               if pairKey = [] then Inl (NoDataFound pr)
               else case map_of res pairKey of
                 None \<Rightarrow> Inl (NoDataFound pr)
               | Some d \<Rightarrow> Inr (market_record pf pr d)))"

text \<open>\<open>Array.map\<close> with a callback that may throw: the first throw ends the whole map.\<close>

fun map_throw :: "('a \<Rightarrow> error + 'b) \<Rightarrow> 'a list \<Rightarrow> error + 'b list" where
  "map_throw g [] = Inr []"
| "map_throw g (x # xs) =
     (case g x of
        Inl e \<Rightarrow> Inl e
      | Inr y \<Rightarrow> (case map_throw g xs of Inl e \<Rightarrow> Inl e | Inr ys \<Rightarrow> Inr (y # ys)))"

definition krakenApi_getMultipleTickers ::
  "(string \<Rightarrow> jsnum) \<Rightarrow> string list \<Rightarrow> ticker_result fetched \<Rightarrow> error + MarketData list" where
  "krakenApi_getMultipleTickers pf prs f =
     (case makeRequest f of
        Inl e \<Rightarrow> Inl e
      | Inr res_opt \<Rightarrow> map_throw (ticker_of_pair pf res_opt) prs)"

section \<open>The gateway, the Fan-out Channel and the Refresh Loop (registerRoutes)\<close>

definition POPULAR_PAIRS :: "string list" where
  "POPULAR_PAIRS =
     [''XBTUSD'', ''ETHUSD'', ''ADAUSD'', ''DOTUSD'', ''SOLUSD'', ''MATICUSD'', ''LINKUSD'',
      ''UNIUSD'']"

subsection \<open>The environment of a handler and the state of the server\<close>

text \<open>
  A handler runs against the exchange and the clock: \<open>ticker_ep\<close>, \<open>depth_ep\<close> and
  \<open>trades_ep\<close> give what a \<open>fetch\<close> of the three public endpoints receives for the pair
  string (and count) of its URL, \<open>now\<close> is the value of \<open>new Date()\<close>, and
  \<open>parseFloat\<close> is the builtin.
\<close>

record env =
  parseFloat :: "string \<Rightarrow> jsnum"
  ticker_ep :: "string \<Rightarrow> ticker_result fetched"
  depth_ep :: "string \<Rightarrow> int \<Rightarrow> depth_result fetched"
  trades_ep :: "string \<Rightarrow> int \<Rightarrow> trades_result fetched"
  now :: nat

datatype endpoint = PublicTicker string | PublicDepth string int | PublicTrades string int

datatype readyState = CONNECTING | OPEN | CLOSING | CLOSED

datatype message_type = type_ticker | type_orderBook | type_trades

datatype message_data =
    data_undefined
  | data_TickerData TickerData
  | data_MarketData MarketData
  | data_OrderBook OrderBook
  | data_RecentTrades RecentTrades

record WebSocketMessage =
  type :: message_type
  pair :: string
  data :: message_data

text \<open>
  The server: the store, the connections of \<open>wss.clients\<close> (a socket stays in the set,
  whatever its \<open>readyState\<close>, until its close event), the messages sent so far with the
  socket each went to, and the upstream requests issued so far (every \<open>fetch\<close>, in
  program order).
\<close>

record server =
  storage :: MemStorage
  requests :: "endpoint list"
  clients :: "(nat \<times> readyState) list"
  sent :: "(nat \<times> WebSocketMessage) list"

definition issued :: "endpoint \<Rightarrow> server \<Rightarrow> server" where
  "issued ep s = s\<lparr>requests := requests s @ [ep]\<rparr>"

text \<open>\<open>pairs.join(',')\<close>\<close>

fun join :: "string list \<Rightarrow> string" where
  "join [] = []"
| "join [x] = x"
| "join (x # y # ys) = x @ '','' @ join (y # ys)"

text \<open>A call of a method of \<open>krakenApi\<close>: its one request is issued, its outcome returned.\<close>

definition call_getTickerData ::
  "env \<Rightarrow> string \<Rightarrow> server \<Rightarrow> (error + TickerData) \<times> server" where
  "call_getTickerData e pr s =
     (krakenApi_getTickerData (parseFloat e) pr (ticker_ep e pr), issued (PublicTicker pr) s)"

definition call_getOrderBook ::
  "env \<Rightarrow> string \<Rightarrow> int \<Rightarrow> server \<Rightarrow> (error + OrderBook) \<times> server" where
  "call_getOrderBook e pr count s =
     (krakenApi_getOrderBook (parseFloat e) pr (depth_ep e pr count),
      issued (PublicDepth pr count) s)"

definition call_getRecentTrades ::
  "env \<Rightarrow> string \<Rightarrow> int \<Rightarrow> server \<Rightarrow> (error + RecentTrades) \<times> server" where
  "call_getRecentTrades e pr count s =
     (krakenApi_getRecentTrades (parseFloat e) pr (trades_ep e pr count),
      issued (PublicTrades pr count) s)"

definition call_getMultipleTickers ::
  "env \<Rightarrow> string list \<Rightarrow> server \<Rightarrow> (error + MarketData list) \<times> server" where
  "call_getMultipleTickers e prs s =
     (krakenApi_getMultipleTickers (parseFloat e) prs (ticker_ep e (join prs)),
      issued (PublicTicker (join prs)) s)"

subsection \<open>The request handlers\<close>

text \<open>A handler answers with the JSON of its data, or with status 500 and the error caught.\<close>

datatype 'a reply = Json 'a | Status500 string error

definition api_ticker :: "env \<Rightarrow> string \<Rightarrow> server \<Rightarrow> TickerData reply \<times> server" where
  "api_ticker e pr s =
     (case call_getTickerData e pr s of
        (Inl err, s1) \<Rightarrow> (Status500 ''Failed to fetch ticker data'' err, s1)
      | (Inr d, s1) \<Rightarrow> (Json d, s1\<lparr>storage := setTickerData pr d (storage s1)\<rparr>))"

text \<open>
  \<open>parseInt(req.query.count) || dflt\<close>: the default stands in for NaN (\<open>None\<close>) and
  for 0.
\<close>

definition query_count :: "int option \<Rightarrow> int \<Rightarrow> int" where
  "query_count q dflt = (case q of None \<Rightarrow> dflt | Some n \<Rightarrow> if n = 0 then dflt else n)"

definition api_orderbook ::
  "env \<Rightarrow> string \<Rightarrow> int option \<Rightarrow> server \<Rightarrow> OrderBook reply \<times> server" where
  "api_orderbook e pr q s =
     (case call_getOrderBook e pr (query_count q 5) s of
        (Inl err, s1) \<Rightarrow> (Status500 ''Failed to fetch order book'' err, s1)
      | (Inr d, s1) \<Rightarrow> (Json d, s1\<lparr>storage := setOrderBook pr d (storage s1)\<rparr>))"

definition api_trades ::
  "env \<Rightarrow> string \<Rightarrow> int option \<Rightarrow> server \<Rightarrow> RecentTrades reply \<times> server" where
  "api_trades e pr q s =
     (case call_getRecentTrades e pr (query_count q 100) s of
        (Inl err, s1) \<Rightarrow> (Status500 ''Failed to fetch recent trades'' err, s1)
      | (Inr d, s1) \<Rightarrow> (Json d, s1\<lparr>storage := setRecentTrades pr d (storage s1)\<rparr>))"

definition api_market_data :: "env \<Rightarrow> server \<Rightarrow> MarketData list reply \<times> server" where
  "api_market_data e s =
     (case call_getMultipleTickers e POPULAR_PAIRS s of
        (Inl err, s1) \<Rightarrow> (Status500 ''Failed to fetch market data'' err, s1)
      | (Inr d, s1) \<Rightarrow>
          (Json d, s1\<lparr>storage := setLastUpdated (now e) (setMarketData d (storage s1))\<rparr>))"

text \<open>
  Force refresh. For one pair, \<open>Promise.all\<close> starts both fetches; the two writes happen
  only when both succeeded, and a failure of either is caught for that pair alone.
\<close>

definition refresh_pair :: "env \<Rightarrow> string \<Rightarrow> server \<Rightarrow> server" where
  "refresh_pair e pr s =
     (case call_getOrderBook e pr 10 s of
        (ob, s1) \<Rightarrow>
          (case call_getRecentTrades e pr 50 s1 of
             (tr, s2) \<Rightarrow>
               (case (ob, tr) of
                  (Inr orderBook, Inr rt) \<Rightarrow>
                    s2\<lparr>storage := setRecentTrades pr rt (setOrderBook pr orderBook (storage s2))\<rparr>
                | _ \<Rightarrow> s2)))"

fun refresh_pairs :: "env \<Rightarrow> string list \<Rightarrow> server \<Rightarrow> server" where
  "refresh_pairs e [] s = s"
| "refresh_pairs e (pr # prs) s = refresh_pairs e prs (refresh_pair e pr s)"

definition api_refresh :: "env \<Rightarrow> server \<Rightarrow> (bool \<times> string) reply \<times> server" where
  "api_refresh e s =
     (case call_getMultipleTickers e POPULAR_PAIRS s of
        (Inl err, s1) \<Rightarrow> (Status500 ''Failed to refresh data'' err, s1)
      | (Inr md, s1) \<Rightarrow>
          (let s2 = refresh_pairs e POPULAR_PAIRS (s1\<lparr>storage := setMarketData md (storage s1)\<rparr>)
           in (Json (True, ''Data refreshed successfully''),
               s2\<lparr>storage := setLastUpdated (now e) (storage s2)\<rparr>)))"

subsection \<open>The subscribe message\<close>

text \<open>
  Every method of the store is \<open>async\<close>: a call evaluates to a promise, resolved with
  the value the method returns. A promise is an object, and every object is truthy; the
  operator \<open>||\<close> evaluates its right operand only when the left one is falsy.
\<close>

datatype 'a promise = Resolved 'a | Rejected error

definition async :: "'a \<Rightarrow> 'a promise" where
  "async x = Resolved x"

definition truthy :: "'a promise \<Rightarrow> bool" where
  "truthy p = True"

definition or_else ::
  "'a promise \<Rightarrow> (server \<Rightarrow> 'a promise \<times> server) \<Rightarrow> server \<Rightarrow> 'a promise \<times> server" where
  "or_else p alt s = (if truthy p then (p, s) else alt s)"

definition as_promise :: "(error + 'a) \<times> server \<Rightarrow> 'a option promise \<times> server" where
  "as_promise c =
     (case c of (Inl err, s) \<Rightarrow> (Rejected err, s) | (Inr x, s) \<Rightarrow> (Resolved (Some x), s))"

datatype client_message = Subscribe "string list option" | OtherMessage | Unparsable

text \<open>
  The initial push for one pair to the socket \<open>ws\<close>: the three operands of
  \<open>Promise.all\<close> are evaluated in order, and the three messages are sent when all
  resolved and the socket is open. An \<open>undefined\<close> datum is sent as no datum.
\<close>

definition initial_push :: "env \<Rightarrow> nat \<Rightarrow> string \<Rightarrow> server \<Rightarrow> server" where
  "initial_push e ws pr s =
     (case or_else (async (getTickerData (storage s) pr))
             (\<lambda>s'. as_promise (call_getTickerData e pr s')) s of
        (p1, s1) \<Rightarrow>
     (case or_else (async (getOrderBook (storage s1) pr))
             (\<lambda>s'. as_promise (call_getOrderBook e pr 5 s')) s1 of
        (p2, s2) \<Rightarrow>
     (case or_else (async (getRecentTrades (storage s2) pr))
             (\<lambda>s'. as_promise (call_getRecentTrades e pr 20 s')) s2 of
        (p3, s3) \<Rightarrow>
     (case (p1, p2, p3) of
        (Resolved ticker, Resolved orderBook, Resolved tr) \<Rightarrow>
          if map_of (clients s3) ws = Some OPEN
          then s3\<lparr>sent := sent s3 @
                 [(ws, \<lparr>type = type_ticker, pair = pr,
                        data = (case ticker of None \<Rightarrow> data_undefined
                                | Some d \<Rightarrow> data_TickerData d)\<rparr>),
                  (ws, \<lparr>type = type_orderBook, pair = pr,
                        data = (case orderBook of None \<Rightarrow> data_undefined
                                | Some d \<Rightarrow> data_OrderBook d)\<rparr>),
                  (ws, \<lparr>type = type_trades, pair = pr,
                        data = (case tr of None \<Rightarrow> data_undefined
                                | Some d \<Rightarrow> data_RecentTrades d)\<rparr>)]\<rparr>
          else s3
      | _ \<Rightarrow> s3))))"

fun initial_pushes :: "env \<Rightarrow> nat \<Rightarrow> string list \<Rightarrow> server \<Rightarrow> server" where
  "initial_pushes e ws [] s = s"
| "initial_pushes e ws (pr # prs) s = initial_pushes e ws prs (initial_push e ws pr s)"

text \<open>\<open>ws.on('message')\<close>: a subscribe message names its pairs, else the popular ones.\<close>

definition on_message :: "env \<Rightarrow> nat \<Rightarrow> client_message \<Rightarrow> server \<Rightarrow> server" where
  "on_message e ws m s =
     (case m of
        Subscribe prs \<Rightarrow>
          initial_pushes e ws (case prs of None \<Rightarrow> POPULAR_PAIRS | Some ps \<Rightarrow> ps) s
      | OtherMessage \<Rightarrow> s
      | Unparsable \<Rightarrow> s)"

subsection \<open>The periodic broadcast\<close>

definition open_clients :: "server \<Rightarrow> nat list" where
  "open_clients s = map fst (filter (\<lambda>c. snd c = OPEN) (clients s))"

definition broadcast :: "MarketData list \<Rightarrow> server \<Rightarrow> server" where
  "broadcast md s =
     s\<lparr>sent := sent s @
        concat (map (\<lambda>ticker.
                  map (\<lambda>client.
                        (client, \<lparr>type = type_ticker, pair = MarketData.pair ticker,
                                  data = data_MarketData ticker\<rparr>))
                    (open_clients s))
                md)\<rparr>"

text \<open>One firing of the 15 s timer: nothing when \<open>wss.clients.size\<close> is 0.\<close>

definition broadcast_cycle :: "env \<Rightarrow> server \<Rightarrow> server" where
  "broadcast_cycle e s =
     (if length (clients s) = 0 then s
      else case call_getMultipleTickers e POPULAR_PAIRS s of
             (Inl err, s1) \<Rightarrow> s1
           | (Inr md, s1) \<Rightarrow> broadcast md (s1\<lparr>storage := setMarketData md (storage s1)\<rparr>))"

section \<open>Failed fetches\<close>

text \<open>A response whose envelope carries a non-empty error list.\<close>

definition has_error_list :: "'r fetched \<Rightarrow> bool" where
  "has_error_list f =
     (case f of
        FetchRejected \<Rightarrow> False
      | Fetched response \<Rightarrow>
          (case body response of None \<Rightarrow> False | Some v \<Rightarrow> error v \<noteq> []))"

text \<open>
  During a force refresh the fetch of a pair has failed when its order book or its
  trades could not be fetched.
\<close>

definition pair_failed :: "env \<Rightarrow> string \<Rightarrow> bool" where
  "pair_failed e pr =
     (isl (krakenApi_getOrderBook (parseFloat e) pr (depth_ep e pr 10))
      \<or> isl (krakenApi_getRecentTrades (parseFloat e) pr (trades_ep e pr 50)))"

section \<open>Example inputs\<close>

text \<open>
  The inputs at which the theorems below are instantiated. \<open>parseFloat_digits\<close> agrees
  with the builtin on the strings of decimal digits, the only strings the examples hold;
  on any other string it is NaN, which stands for no claim about the builtin there.
\<close>

definition digit_table :: "(char \<times> nat) list" where
  "digit_table =
     [(CHR ''0'', 0), (CHR ''1'', 1), (CHR ''2'', 2), (CHR ''3'', 3), (CHR ''4'', 4),
      (CHR ''5'', 5), (CHR ''6'', 6), (CHR ''7'', 7), (CHR ''8'', 8), (CHR ''9'', 9)]"

fun digits_value :: "nat \<Rightarrow> string \<Rightarrow> nat option" where
  "digits_value n [] = Some n"
| "digits_value n (ch # cs) =
     (case map_of digit_table ch of
        None \<Rightarrow> None
      | Some dg \<Rightarrow> digits_value (10 * n + dg) cs)"

definition parseFloat_digits :: "string \<Rightarrow> jsnum" where
  "parseFloat_digits str =
     (if str = [] then NaN
      else case digits_value 0 str of None \<Rightarrow> NaN | Some n \<Rightarrow> Num (real n))"

definition ok_response :: "'r \<Rightarrow> 'r fetched" where
  "ok_response r =
     Fetched \<lparr>ok = True, status = 200, statusText = ''OK'',
              body = Some \<lparr>error = [], result = Some r\<rparr>\<rparr>"

text \<open>The envelope \<open>{error: ["Invalid arguments"], result: null}\<close>.\<close>

definition error_response :: "'r fetched" where
  "error_response =
     Fetched \<lparr>ok = True, status = 200, statusText = ''OK'',
              body = Some \<lparr>error = [''Invalid arguments''], result = None\<rparr>\<rparr>"

definition example_ticker :: "string \<Rightarrow> string \<Rightarrow> raw_ticker" where
  "example_ticker b a =
     \<lparr>raw_a = [a, ''1'', ''1''], raw_b = [b, ''1'', ''1''], raw_c = [b, ''1''],
      raw_v = [''10'', ''20''], raw_l = [''90'', ''80''], raw_h = [''110'', ''120''],
      raw_o = ''50''\<rparr>"

definition example_tickers :: ticker_result where
  "example_tickers =
     [(''XXBTZUSD'', example_ticker ''100'' ''101''),
      (''XETHZUSD'', example_ticker ''100'' ''101''),
      (''ADAUSD'', example_ticker ''100'' ''101''),
      (''DOTUSD'', example_ticker ''100'' ''101''),
      (''SOLUSD'', example_ticker ''100'' ''101''),
      (''MATICUSD'', example_ticker ''100'' ''101''),
      (''LINKUSD'', example_ticker ''100'' ''101''),
      (''UNIUSD'', example_ticker ''100'' ''101'')]"

definition example_depth :: raw_depth where
  "example_depth = \<lparr>raw_asks = [(''101'', ''2'', 7)], raw_bids = [(''100'', ''3'', 7)]\<rparr>"

text \<open>
  An exchange that answers every ticker request with \<open>example_tickers\<close>, refuses the
  depth of XBTUSD with the error envelope, and answers every other depth and trades
  request.
\<close>

definition example_env :: env where
  "example_env =
     \<lparr>parseFloat = parseFloat_digits,
      ticker_ep = (\<lambda>prs. ok_response example_tickers),
      depth_ep = (\<lambda>pr count. if pr = ''XBTUSD'' then error_response
                              else ok_response [(pr, example_depth)]),
      trades_ep = (\<lambda>pr count. ok_response [(pr, [(''100'', ''1'', 5, ''b'')])]),
      now = 2000\<rparr>"

text \<open>An exchange that answers every request with the error envelope.\<close>

definition failing_env :: env where
  "failing_env =
     \<lparr>parseFloat = parseFloat_digits,
      ticker_ep = (\<lambda>prs. error_response),
      depth_ep = (\<lambda>pr count. error_response),
      trades_ep = (\<lambda>pr count. error_response),
      now = 2000\<rparr>"

text \<open>A server with an empty store, last refreshed at 1000, and the given connections.\<close>

definition example_server :: "(nat \<times> readyState) list \<Rightarrow> server" where
  "example_server cs =
     \<lparr>storage = MemStorage_new\<lparr>lastUpdated := Some 1000\<rparr>, requests = [], clients = cs,
      sent = []\<rparr>"

text \<open>An exchange that answers the ticker requests and refuses every depth and trades request.\<close>

definition tickers_only_env :: env where
  "tickers_only_env =
     \<lparr>parseFloat = parseFloat_digits,
      ticker_ep = (\<lambda>prs. ok_response example_tickers),
      depth_ep = (\<lambda>pr count. error_response),
      trades_ep = (\<lambda>pr count. error_response),
      now = 2000\<rparr>"

text \<open>A server whose store holds an order book and trades of XBTUSD from an earlier fetch.\<close>

definition stale_book :: OrderBook where
  "stale_book =
     \<lparr>OrderBook.pair = ''XBTUSD'',
      asks = [\<lparr>OrderBookEntry.price = Num 99, volume = Num 1, timestamp = 1\<rparr>],
      bids = [\<lparr>OrderBookEntry.price = Num 98, volume = Num 1, timestamp = 1\<rparr>],
      spread = Num 1, spreadPercent = Num 1\<rparr>"

definition stale_trades :: RecentTrades where
  "stale_trades =
     \<lparr>RecentTrades.pair = ''XBTUSD'',
      trades = [\<lparr>Trade.price = Num 98, volume = Num 1, time = 1, side = sell\<rparr>]\<rparr>"

definition stale_server :: server where
  "stale_server =
     \<lparr>storage = \<lparr>tickerData = [], orderBooks = [(''XBTUSD'', stale_book)],
                  recentTrades = [(''XBTUSD'', stale_trades)], marketData = [],
                  lastUpdated = Some 1000\<rparr>,
      requests = [], clients = [], sent = []\<rparr>"

section \<open>Properties of the Snapshot Store\<close>

text \<open>
  C9. For each kind (ticker, order book, trades), every pair and every record: a put
  followed by a get on the same pair returns exactly the record written, and after a
  second put on the same pair the get returns exactly the second record, whatever the
  first was: the second write replaces the first wholesale.
\<close>

theorem put_get_last_write:
  "getTickerData (setTickerData pr t st) pr = Some t
   \<and> getTickerData (setTickerData pr t2 (setTickerData pr t1 st)) pr = Some t2
   \<and> getOrderBook (setOrderBook pr b st) pr = Some b
   \<and> getOrderBook (setOrderBook pr b2 (setOrderBook pr b1 st)) pr = Some b2
   \<and> getRecentTrades (setRecentTrades pr r st) pr = Some r
   \<and> getRecentTrades (setRecentTrades pr r2 (setRecentTrades pr r1 st)) pr = Some r2"
  by (simp add: getTickerData_def setTickerData_def getOrderBook_def setOrderBook_def
      getRecentTrades_def setRecentTrades_def update_conv')

section \<open>Properties of the Upstream Client\<close>

lemmas example_defs = krakenApi_getMultipleTickers_def makeRequest_def ok_response_def
  ticker_of_pair_def object_prototype_names_def resolve_pairKey_def possibleKeys_def
  krakenPairMap_def example_tickers_def market_record_def example_ticker_def
  parseFloat_at_def parseFloat_digits_def digit_table_def getPairDisplayName_def names_def

subsection \<open>The records of the batch fetch\<close>

lemma map_throw_Inr:
  "map_throw g xs = Inr ys \<Longrightarrow> list_all2 (\<lambda>x y. g x = Inr y) xs ys"
  by (induction xs arbitrary: ys) (auto split: sum.splits)

lemma ticker_of_pair_Inr:
  assumes "ticker_of_pair pf res_opt pr = Inr r"
  shows "\<exists>res key d. res_opt = Some res \<and> resolve_pairKey res pr = Inr key
           \<and> map_of res key = Some d \<and> r = market_record pf pr d"
  using assms
  by (auto simp: ticker_of_pair_def split: if_splits option.splits sum.splits)

lemma market_record_json:
  "MarketData_json (market_record pf pr d) = take 10 (TickerData_json (ticker_record pf pr d))"
  by (simp add: MarketData_json_def TickerData_json_def market_record_def ticker_record_def)

lemma MarketData_json_no_spread:
  "map_of (MarketData_json r) ''spread'' = None
   \<and> map_of (MarketData_json r) ''spreadPercent'' = None"
  by (simp add: MarketData_json_def)

lemma ticker_record_spread:
  "TickerData.spread (ticker_record pf pr d)
     = jsub (TickerData.ask (ticker_record pf pr d)) (TickerData.bid (ticker_record pf pr d))
   \<and> TickerData.spreadPercent (ticker_record pf pr d)
     = jmul (jdiv (TickerData.spread (ticker_record pf pr d))
               (TickerData.bid (ticker_record pf pr d)))
         (Num 100)"
  by (simp add: ticker_record_def)

lemma getTickerData_first_entry:
  "makeRequest f = Inr (Some ((k, d) # rest)) \<Longrightarrow>
   krakenApi_getTickerData pf pr f = Inr (ticker_record pf pr d)"
  by (simp add: krakenApi_getTickerData_def)

text \<open>
  C1 (as stated, refuted). The record that \<open>getMultipleTickers\<close> returns for ADAUSD has
  neither a \<open>spread\<close> nor a \<open>spreadPercent\<close> property, although its bid is 100 and
  its ask 101.
\<close>

theorem getMultipleTickers_record_without_spread:
  "krakenApi_getMultipleTickers parseFloat_digits [''ADAUSD''] (ok_response example_tickers)
     = Inr [\<lparr>MarketData.pair = ''ADAUSD'', name = Name ''Cardano'', lastPrice = Num 100,
              change24h = Num 50, changePercent24h = Num 100, volume24h = Num 20,
              high24h = Num 120, low24h = Num 80, bid = Num 100, ask = Num 101\<rparr>]
   \<and> map_of (MarketData_json
        \<lparr>MarketData.pair = ''ADAUSD'', name = Name ''Cardano'', lastPrice = Num 100,
         change24h = Num 50, changePercent24h = Num 100, volume24h = Num 20,
         high24h = Num 120, low24h = Num 80, bid = Num 100, ask = Num 101\<rparr>) ''spread''
       = None
   \<and> map_of (MarketData_json
        \<lparr>MarketData.pair = ''ADAUSD'', name = Name ''Cardano'', lastPrice = Num 100,
         change24h = Num 50, changePercent24h = Num 100, volume24h = Num 20,
         high24h = Num 120, low24h = Num 80, bid = Num 100, ask = Num 101\<rparr>) ''spreadPercent''
       = None"
  by (simp add: example_defs MarketData_json_def)

text \<open>
  C1 (amended). For every list of requested pairs, when \<open>getMultipleTickers\<close> succeeds
  it returns exactly one record per requested pair, in the order requested. The record
  of a pair is built from the upstream entry resolved for that pair: it carries the
  pair, the bid and the ask of that entry, and its ten properties are the first ten of
  the record \<open>getTickerData\<close> builds from the same entry, computed alike. It has no
  \<open>spread\<close> and no \<open>spreadPercent\<close> property: only the record of \<open>getTickerData\<close>
  has them, with \<open>spread = ask - bid\<close> and \<open>spreadPercent = spread / bid * 100\<close>.
\<close>

theorem getMultipleTickers_one_record_per_pair:
  assumes "krakenApi_getMultipleTickers pf prs f = Inr rs"
  shows "length rs = length prs
    \<and> map MarketData.pair rs = prs
    \<and> list_all2 (\<lambda>pr r. \<exists>res key d.
          makeRequest f = Inr (Some res)
        \<and> resolve_pairKey res pr = Inr key
        \<and> map_of res key = Some d
        \<and> r = market_record pf pr d
        \<and> MarketData.bid r = parseFloat_at pf (raw_b d) 0
        \<and> MarketData.ask r = parseFloat_at pf (raw_a d) 0
        \<and> map_of (MarketData_json r) ''spread'' = None
        \<and> map_of (MarketData_json r) ''spreadPercent'' = None
        \<and> MarketData_json r = take 10 (TickerData_json (ticker_record pf pr d))
        \<and> krakenApi_getTickerData pf pr (ok_response [(pr, d)]) = Inr (ticker_record pf pr d)
        \<and> TickerData.spread (ticker_record pf pr d)
            = jsub (TickerData.ask (ticker_record pf pr d))
                (TickerData.bid (ticker_record pf pr d))
        \<and> TickerData.spreadPercent (ticker_record pf pr d)
            = jmul (jdiv (TickerData.spread (ticker_record pf pr d))
                      (TickerData.bid (ticker_record pf pr d)))
                (Num 100)) prs rs"
proof -
  from assms obtain res_opt where mr: "makeRequest f = Inr res_opt"
    and mt: "map_throw (ticker_of_pair pf res_opt) prs = Inr rs"
    by (auto simp: krakenApi_getMultipleTickers_def split: sum.splits)
  from map_throw_Inr[OF mt]
  have all2: "list_all2 (\<lambda>pr r. ticker_of_pair pf res_opt pr = Inr r) prs rs" .
  then have len: "length rs = length prs"
    by (simp add: list_all2_lengthD)
  have each: "\<exists>res key d.
          makeRequest f = Inr (Some res)
        \<and> resolve_pairKey res pr = Inr key
        \<and> map_of res key = Some d
        \<and> r = market_record pf pr d
        \<and> MarketData.bid r = parseFloat_at pf (raw_b d) 0
        \<and> MarketData.ask r = parseFloat_at pf (raw_a d) 0
        \<and> map_of (MarketData_json r) ''spread'' = None
        \<and> map_of (MarketData_json r) ''spreadPercent'' = None
        \<and> MarketData_json r = take 10 (TickerData_json (ticker_record pf pr d))
        \<and> krakenApi_getTickerData pf pr (ok_response [(pr, d)]) = Inr (ticker_record pf pr d)
        \<and> TickerData.spread (ticker_record pf pr d)
            = jsub (TickerData.ask (ticker_record pf pr d))
                (TickerData.bid (ticker_record pf pr d))
        \<and> TickerData.spreadPercent (ticker_record pf pr d)
            = jmul (jdiv (TickerData.spread (ticker_record pf pr d))
                      (TickerData.bid (ticker_record pf pr d)))
                (Num 100)"
    if cb: "ticker_of_pair pf res_opt pr = Inr r" for pr r
  proof -
    from ticker_of_pair_Inr[OF cb] mr obtain res key d where
      a: "makeRequest f = Inr (Some res)"
      and k: "resolve_pairKey res pr = Inr key"
      and b: "map_of res key = Some d"
      and c: "r = market_record pf pr d" by auto
    have d2: "MarketData.bid r = parseFloat_at pf (raw_b d) 0"
      and d3: "MarketData.ask r = parseFloat_at pf (raw_a d) 0"
      by (simp_all add: c market_record_def)
    have d4: "krakenApi_getTickerData pf pr (ok_response [(pr, d)]) = Inr (ticker_record pf pr d)"
      by (rule getTickerData_first_entry) (simp add: makeRequest_def ok_response_def)
    show ?thesis
      using a k b c d2 d3 d4 MarketData_json_no_spread[of r]
        market_record_json[of pf pr d] ticker_record_spread[of pf pr d]
      by (intro exI[of _ res] exI[of _ key] exI[of _ d]) simp
  qed
  have pairs: "map MarketData.pair rs = prs"
  proof (rule nth_equalityI)
    show "length (map MarketData.pair rs) = length prs" using len by simp
  next
    fix i assume "i < length (map MarketData.pair rs)"
    then have i: "i < length prs" using len by simp
    from list_all2_nthD[OF all2 i] have "ticker_of_pair pf res_opt (prs ! i) = Inr (rs ! i)" .
    from ticker_of_pair_Inr[OF this] have "MarketData.pair (rs ! i) = prs ! i"
      by (auto simp: market_record_def)
    with i len show "map MarketData.pair rs ! i = prs ! i" by simp
  qed
  from list_all2_mono[OF all2 each] len pairs show ?thesis by simp
qed

text \<open>The theorem at a request for XBTUSD and ADAUSD.\<close>

theorem getMultipleTickers_one_record_per_pair_witness:
  "krakenApi_getMultipleTickers parseFloat_digits [''XBTUSD'', ''ADAUSD'']
       (ok_response example_tickers)
     = Inr [market_record parseFloat_digits ''XBTUSD'' (example_ticker ''100'' ''101''),
            market_record parseFloat_digits ''ADAUSD'' (example_ticker ''100'' ''101'')]
   \<and> length [market_record parseFloat_digits ''XBTUSD'' (example_ticker ''100'' ''101''),
              market_record parseFloat_digits ''ADAUSD'' (example_ticker ''100'' ''101'')]
       = length [''XBTUSD'', ''ADAUSD'']
   \<and> (\<exists>res key d. makeRequest (ok_response example_tickers) = Inr (Some res)
        \<and> resolve_pairKey res ''ADAUSD'' = Inr key
        \<and> map_of res key = Some d
        \<and> market_record parseFloat_digits ''ADAUSD'' (example_ticker ''100'' ''101'')
            = market_record parseFloat_digits ''ADAUSD'' d
        \<and> map_of (MarketData_json (market_record parseFloat_digits ''ADAUSD'' d)) ''spread''
            = None
        \<and> krakenApi_getTickerData parseFloat_digits ''ADAUSD'' (ok_response [(''ADAUSD'', d)])
            = Inr (ticker_record parseFloat_digits ''ADAUSD'' d)
        \<and> TickerData.spread (ticker_record parseFloat_digits ''ADAUSD'' d)
            = jsub (TickerData.ask (ticker_record parseFloat_digits ''ADAUSD'' d))
                (TickerData.bid (ticker_record parseFloat_digits ''ADAUSD'' d)))"
proof -
  have p: "krakenApi_getMultipleTickers parseFloat_digits [''XBTUSD'', ''ADAUSD'']
       (ok_response example_tickers)
     = Inr [market_record parseFloat_digits ''XBTUSD'' (example_ticker ''100'' ''101''),
            market_record parseFloat_digits ''ADAUSD'' (example_ticker ''100'' ''101'')]"
    by (simp add: example_defs)
  from getMultipleTickers_one_record_per_pair[OF p] p show ?thesis
    by auto
qed

subsection \<open>The spread of an order book\<close>

lemma jsub_zero_right: "jsub x (Num 0) = x"
  by (cases x) simp_all

text \<open>
  C3 (as stated, refuted). With one level of asks at 101 and no bids, \<open>getOrderBook\<close>
  returns the spread 101; with no asks and one level of bids at 100, it returns the
  spread -100 and the percentage -100.
\<close>

theorem getOrderBook_one_empty_side_spread:
  "krakenApi_getOrderBook parseFloat_digits ''XBTUSD''
     (ok_response [(''XXBTZUSD'', \<lparr>raw_asks = [(''101'', ''2'', 7)], raw_bids = []\<rparr>)])
   = Inr \<lparr>OrderBook.pair = ''XBTUSD'',
          asks = [\<lparr>OrderBookEntry.price = Num 101, volume = Num 2, timestamp = 7\<rparr>],
          bids = [], spread = Num 101, spreadPercent = Num 0\<rparr>
   \<and> krakenApi_getOrderBook parseFloat_digits ''XBTUSD''
     (ok_response [(''XXBTZUSD'', \<lparr>raw_asks = [], raw_bids = [(''100'', ''2'', 7)]\<rparr>)])
   = Inr \<lparr>OrderBook.pair = ''XBTUSD'', asks = [],
          bids = [\<lparr>OrderBookEntry.price = Num 100, volume = Num 2, timestamp = 7\<rparr>],
          spread = Num (- 100), spreadPercent = Num (- 100)\<rparr>"
  by (simp add: krakenApi_getOrderBook_def makeRequest_def ok_response_def level_entry_def
      parseFloat_digits_def digit_table_def Let_def)

text \<open>
  C3 (amended). For every pair and depth, on a depth response read under its first key:
  when both the asks and the bids array are empty, \<open>getOrderBook\<close> returns spread 0
  and spreadPercent 0. When only the bids are empty, the best bid is taken as zero: the
  spread is the best ask and spreadPercent is 0. When only the asks are empty, the best
  ask is taken as zero: the spread is 0 minus the best bid, and spreadPercent is
  \<open>spread / bestBid * 100\<close> when the best bid is positive (-100 for a finite best
  bid), else 0.
\<close>

theorem getOrderBook_empty_sides:
  assumes "makeRequest f = Inr (Some ((k, d) # rest))"
  shows "\<exists>ob. krakenApi_getOrderBook pf pr f = Inr ob
     \<and> (raw_asks d = [] \<and> raw_bids d = [] \<longrightarrow>
          OrderBook.spread ob = Num 0 \<and> OrderBook.spreadPercent ob = Num 0)
     \<and> (\<forall>a as. raw_asks d = a # as \<and> raw_bids d = [] \<longrightarrow>
          OrderBook.spread ob = pf (fst a) \<and> OrderBook.spreadPercent ob = Num 0)
     \<and> (\<forall>b bs. raw_asks d = [] \<and> raw_bids d = b # bs \<longrightarrow>
          OrderBook.spread ob = jsub (Num 0) (pf (fst b))
          \<and> OrderBook.spreadPercent ob =
              (if jgt (pf (fst b)) (Num 0)
               then jmul (jdiv (OrderBook.spread ob) (pf (fst b))) (Num 100) else Num 0))
     \<and> (\<forall>b bs x. raw_asks d = [] \<and> raw_bids d = b # bs \<and> pf (fst b) = Num x \<and> 0 < x \<longrightarrow>
          OrderBook.spread ob = Num (- x) \<and> OrderBook.spreadPercent ob = Num (- 100))"
  using assms
  by (auto simp: krakenApi_getOrderBook_def Let_def level_entry_def jsub_zero_right
      split: prod.splits)

text \<open>The theorem at a response with no levels, with asks only, and with bids only.\<close>

theorem getOrderBook_empty_sides_witness:
  "(\<exists>ob. krakenApi_getOrderBook parseFloat_digits ''XBTUSD''
            (ok_response [(''XXBTZUSD'', \<lparr>raw_asks = [], raw_bids = []\<rparr>)]) = Inr ob
        \<and> OrderBook.spread ob = Num 0 \<and> OrderBook.spreadPercent ob = Num 0)
   \<and> (\<exists>ob. krakenApi_getOrderBook parseFloat_digits ''XBTUSD''
            (ok_response [(''XXBTZUSD'', \<lparr>raw_asks = [(''101'', ''2'', 7)], raw_bids = []\<rparr>)])
            = Inr ob
        \<and> OrderBook.spread ob = Num 101 \<and> OrderBook.spreadPercent ob = Num 0)
   \<and> (\<exists>ob. krakenApi_getOrderBook parseFloat_digits ''XBTUSD''
            (ok_response [(''XXBTZUSD'', \<lparr>raw_asks = [], raw_bids = [(''100'', ''2'', 7)]\<rparr>)])
            = Inr ob
        \<and> OrderBook.spread ob = Num (- 100) \<and> OrderBook.spreadPercent ob = Num (- 100))"
proof -
  have r: "makeRequest (ok_response [(''XXBTZUSD'', d)]) = Inr (Some ((''XXBTZUSD'', d) # []))"
    for d :: raw_depth
    by (simp add: makeRequest_def ok_response_def)
  have v: "parseFloat_digits ''101'' = Num 101 \<and> parseFloat_digits ''100'' = Num 100"
    by (simp add: parseFloat_digits_def digit_table_def)
  from getOrderBook_empty_sides[OF r, of parseFloat_digits "''XBTUSD''"
      "\<lparr>raw_asks = [], raw_bids = []\<rparr>"]
  have both: "\<exists>ob. krakenApi_getOrderBook parseFloat_digits ''XBTUSD''
            (ok_response [(''XXBTZUSD'', \<lparr>raw_asks = [], raw_bids = []\<rparr>)]) = Inr ob
        \<and> OrderBook.spread ob = Num 0 \<and> OrderBook.spreadPercent ob = Num 0"
    by auto
  from getOrderBook_empty_sides[OF r, of parseFloat_digits "''XBTUSD''"
      "\<lparr>raw_asks = [(''101'', ''2'', 7)], raw_bids = []\<rparr>"] v
  have asks_only: "\<exists>ob. krakenApi_getOrderBook parseFloat_digits ''XBTUSD''
            (ok_response [(''XXBTZUSD'', \<lparr>raw_asks = [(''101'', ''2'', 7)], raw_bids = []\<rparr>)])
            = Inr ob
        \<and> OrderBook.spread ob = Num 101 \<and> OrderBook.spreadPercent ob = Num 0"
    by auto
  from getOrderBook_empty_sides[OF r, of parseFloat_digits "''XBTUSD''"
      "\<lparr>raw_asks = [], raw_bids = [(''100'', ''2'', 7)]\<rparr>"] v
  have bids_only: "\<exists>ob. krakenApi_getOrderBook parseFloat_digits ''XBTUSD''
            (ok_response [(''XXBTZUSD'', \<lparr>raw_asks = [], raw_bids = [(''100'', ''2'', 7)]\<rparr>)])
            = Inr ob
        \<and> OrderBook.spread ob = Num (- 100) \<and> OrderBook.spreadPercent ob = Num (- 100)"
    by auto
  from both asks_only bids_only show ?thesis by (intro conjI)
qed

subsection \<open>The resolution of a requested pair\<close>

lemma alias_loop_first:
  assumes "k \<in> set ks" "map_of res k \<noteq> None"
  shows "find (\<lambda>k. map_of res k \<noteq> None) ks = Some (alias_loop res ks)"
  using assms by (induction ks) auto

lemma alias_loop_mem:
  assumes "k \<in> set ks" "map_of res k \<noteq> None"
  shows "alias_loop res ks \<in> set ks \<and> map_of res (alias_loop res ks) \<noteq> None"
  using assms by (induction ks) auto

lemma possibleKeys_cases:
  assumes "pr \<notin> set object_prototype_names"
  shows "possibleKeys pr = Some [pr]
   \<or> (pr = ''XBTUSD'' \<and> possibleKeys pr = Some [''XXBTZUSD'', ''XBTUSD''])
   \<or> (pr = ''ETHUSD'' \<and> possibleKeys pr = Some [''XETHZUSD'', ''ETHUSD''])"
  using assms by (simp add: possibleKeys_def krakenPairMap_def)

lemma possibleKeys_inherited:
  "pr \<in> set object_prototype_names \<Longrightarrow>
   possibleKeys pr = None \<and> resolve_pairKey res pr = Inl TypeError
   \<and> ticker_of_pair pf res_opt pr = Inl TypeError"
  by (simp add: possibleKeys_def resolve_pairKey_def ticker_of_pair_def split: option.splits)

lemma possibleKeys_nonempty:
  assumes "pr \<noteq> []" "pr \<notin> set object_prototype_names" "possibleKeys pr = Some keys"
    "k \<in> set keys"
  shows "k \<noteq> []"
  using assms possibleKeys_cases[of pr] by auto

lemma possibleKeys_own:
  assumes "pr \<notin> set object_prototype_names" "possibleKeys pr = Some keys"
    "pr = ''XBTUSD'' \<longrightarrow> map_of res ''XXBTZUSD'' = None"
    "pr = ''ETHUSD'' \<longrightarrow> map_of res ''XETHZUSD'' = None"
    "map_of res pr \<noteq> None"
  shows "alias_loop res keys = pr"
  using assms possibleKeys_cases[of pr] by auto

text \<open>
  C7 (as stated, refuted). XBTUSD is requested and is a key of the response, together
  with XXBTZUSD: the pair resolves to XXBTZUSD, the alias listed first, and the record
  returned is built from that entry (bid 200), not from the entry under XBTUSD (bid 100).
\<close>

theorem higher_alias_precedes_own_identifier:
  "map_of [(''XBTUSD'', example_ticker ''100'' ''101''),
           (''XXBTZUSD'', example_ticker ''200'' ''201'')] ''XBTUSD''
     = Some (example_ticker ''100'' ''101'')
   \<and> possibleKeys ''XBTUSD'' = Some [''XXBTZUSD'', ''XBTUSD'']
   \<and> alias_loop [(''XBTUSD'', example_ticker ''100'' ''101''),
                 (''XXBTZUSD'', example_ticker ''200'' ''201'')] [''XXBTZUSD'', ''XBTUSD'']
     = ''XXBTZUSD''
   \<and> resolve_pairKey [(''XBTUSD'', example_ticker ''100'' ''101''),
                      (''XXBTZUSD'', example_ticker ''200'' ''201'')] ''XBTUSD''
     = Inr ''XXBTZUSD''
   \<and> krakenApi_getMultipleTickers parseFloat_digits [''XBTUSD'']
        (ok_response [(''XBTUSD'', example_ticker ''100'' ''101''),
                      (''XXBTZUSD'', example_ticker ''200'' ''201'')])
     = Inr [market_record parseFloat_digits ''XBTUSD'' (example_ticker ''200'' ''201'')]
   \<and> MarketData.bid (market_record parseFloat_digits ''XBTUSD'' (example_ticker ''200'' ''201''))
     = Num 200"
  by (simp add: krakenApi_getMultipleTickers_def makeRequest_def ok_response_def
      ticker_of_pair_def object_prototype_names_def resolve_pairKey_def possibleKeys_def
      krakenPairMap_def market_record_def example_ticker_def parseFloat_at_def
      parseFloat_digits_def digit_table_def)

text \<open>
  C7 (amended). In the resolution of \<open>getMultipleTickers\<close>, take a requested pair
  that is not the empty string and is not named like a member of \<open>Object.prototype\<close>
  (for such a name the lookup in \<open>krakenPairMap\<close> finds the inherited member and the
  resolution throws a TypeError). If one of its possible keys, its own identifier or
  an alias, is a key of the upstream response, the pair is resolved by the alias loop
  and never by the fuzzy fallback: the loop leaves a non-empty \<open>pairKey\<close>, which is
  the first of the pair's possible keys, in the priority order of the alias table,
  that the response holds, and the record returned is built from the entry under it.
  That key is the pair's own identifier when the response holds it and holds no alias
  listed before it (XXBTZUSD for XBTUSD, XETHZUSD for ETHUSD).
\<close>

theorem resolved_by_alias_table:
  assumes "pr \<noteq> []" and "pr \<notin> set object_prototype_names"
    and "possibleKeys pr = Some keys" and "k \<in> set keys" and "map_of res k \<noteq> None"
  shows "alias_loop res keys \<noteq> []
     \<and> resolve_pairKey res pr = Inr (alias_loop res keys)
     \<and> find (\<lambda>key. map_of res key \<noteq> None) keys = Some (alias_loop res keys)
     \<and> (map_of res pr \<noteq> None
          \<and> (pr = ''XBTUSD'' \<longrightarrow> map_of res ''XXBTZUSD'' = None)
          \<and> (pr = ''ETHUSD'' \<longrightarrow> map_of res ''XETHZUSD'' = None)
        \<longrightarrow> resolve_pairKey res pr = Inr pr)
     \<and> (\<exists>d. map_of res (alias_loop res keys) = Some d
           \<and> ticker_of_pair pf (Some res) pr = Inr (market_record pf pr d))"
proof -
  from alias_loop_mem[OF assms(4,5)]
  have mem: "alias_loop res keys \<in> set keys"
    and held: "map_of res (alias_loop res keys) \<noteq> None" by simp_all
  from possibleKeys_nonempty[OF assms(1,2,3) mem]
  have ne: "alias_loop res keys \<noteq> []" .
  then have eq: "resolve_pairKey res pr = Inr (alias_loop res keys)"
    using assms(3) by (simp add: resolve_pairKey_def Let_def)
  have first: "find (\<lambda>key. map_of res key \<noteq> None) keys = Some (alias_loop res keys)"
    using alias_loop_first[OF assms(4,5)] by simp
  have own: "map_of res pr \<noteq> None
          \<and> (pr = ''XBTUSD'' \<longrightarrow> map_of res ''XXBTZUSD'' = None)
          \<and> (pr = ''ETHUSD'' \<longrightarrow> map_of res ''XETHZUSD'' = None)
        \<longrightarrow> resolve_pairKey res pr = Inr pr"
  proof
    assume a: "map_of res pr \<noteq> None
          \<and> (pr = ''XBTUSD'' \<longrightarrow> map_of res ''XXBTZUSD'' = None)
          \<and> (pr = ''ETHUSD'' \<longrightarrow> map_of res ''XETHZUSD'' = None)"
    then have "alias_loop res keys = pr"
      by (intro possibleKeys_own[OF assms(2,3)]) simp_all
    with eq show "resolve_pairKey res pr = Inr pr" by simp
  qed
  have built: "\<exists>d. map_of res (alias_loop res keys) = Some d
           \<and> ticker_of_pair pf (Some res) pr = Inr (market_record pf pr d)"
  proof -
    from held obtain d where d: "map_of res (alias_loop res keys) = Some d" by auto
    have "ticker_of_pair pf (Some res) pr = Inr (market_record pf pr d)"
      unfolding ticker_of_pair_def using d ne eq by simp
    with d show ?thesis by blast
  qed
  show ?thesis
    using ne eq first own built by (intro conjI)
qed

text \<open>
  The theorem at ADAUSD, a key of the response itself, and at XBTUSD, whose alias
  XXBTZUSD is a key of the response.
\<close>

theorem resolved_by_alias_table_witness:
  "possibleKeys ''ADAUSD'' = Some [''ADAUSD'']
   \<and> alias_loop example_tickers [''ADAUSD''] \<noteq> []
   \<and> resolve_pairKey example_tickers ''ADAUSD'' = Inr ''ADAUSD''
   \<and> possibleKeys ''XBTUSD'' = Some [''XXBTZUSD'', ''XBTUSD'']
   \<and> alias_loop example_tickers [''XXBTZUSD'', ''XBTUSD''] \<noteq> []
   \<and> find (\<lambda>key. map_of example_tickers key \<noteq> None) [''XXBTZUSD'', ''XBTUSD'']
       = Some (alias_loop example_tickers [''XXBTZUSD'', ''XBTUSD''])
   \<and> resolve_pairKey example_tickers ''XBTUSD'' = Inr ''XXBTZUSD''
   \<and> (\<exists>d. map_of example_tickers (alias_loop example_tickers [''XXBTZUSD'', ''XBTUSD''])
            = Some d
         \<and> ticker_of_pair parseFloat_digits (Some example_tickers) ''XBTUSD''
             = Inr (market_record parseFloat_digits ''XBTUSD'' d))"
proof -
  have ada_ne: "''ADAUSD'' \<noteq> []" by simp
  have ada_np: "''ADAUSD'' \<notin> set object_prototype_names"
    by (simp add: object_prototype_names_def)
  have ada_keys: "possibleKeys ''ADAUSD'' = Some [''ADAUSD'']"
    by (simp add: possibleKeys_def krakenPairMap_def object_prototype_names_def)
  have ada_mem: "''ADAUSD'' \<in> set [''ADAUSD'']" by simp
  have ada_held: "map_of example_tickers ''ADAUSD'' \<noteq> None"
    by (simp add: example_tickers_def)
  have other: "''ADAUSD'' \<noteq> ''XBTUSD''" "''ADAUSD'' \<noteq> ''ETHUSD''" by simp_all
  have xbt_ne: "''XBTUSD'' \<noteq> []" by simp
  have xbt_np: "''XBTUSD'' \<notin> set object_prototype_names"
    by (simp add: object_prototype_names_def)
  have xbt_keys: "possibleKeys ''XBTUSD'' = Some [''XXBTZUSD'', ''XBTUSD'']"
    by (simp add: possibleKeys_def krakenPairMap_def object_prototype_names_def)
  have xbt_mem: "''XXBTZUSD'' \<in> set [''XXBTZUSD'', ''XBTUSD'']" by simp
  have xbt_held: "map_of example_tickers ''XXBTZUSD'' \<noteq> None"
    by (simp add: example_tickers_def)
  have loop: "alias_loop example_tickers [''XXBTZUSD'', ''XBTUSD''] = ''XXBTZUSD''"
    by (simp add: example_tickers_def)
  note a = resolved_by_alias_table[OF ada_ne ada_np ada_keys ada_mem ada_held,
      of parseFloat_digits]
  note b = resolved_by_alias_table[OF xbt_ne xbt_np xbt_keys xbt_mem xbt_held,
      of parseFloat_digits]
  from a have a1: "alias_loop example_tickers [''ADAUSD''] \<noteq> []" by blast
  from a ada_held other
  have a2: "resolve_pairKey example_tickers ''ADAUSD'' = Inr ''ADAUSD''" by blast
  from b have b1: "alias_loop example_tickers [''XXBTZUSD'', ''XBTUSD''] \<noteq> []" by blast
  from b
  have b2: "find (\<lambda>key. map_of example_tickers key \<noteq> None) [''XXBTZUSD'', ''XBTUSD'']
       = Some (alias_loop example_tickers [''XXBTZUSD'', ''XBTUSD''])" by blast
  from b have "resolve_pairKey example_tickers ''XBTUSD''
      = Inr (alias_loop example_tickers [''XXBTZUSD'', ''XBTUSD''])" by blast
  with loop have b3: "resolve_pairKey example_tickers ''XBTUSD'' = Inr ''XXBTZUSD''"
    by simp
  from b
  have b4: "\<exists>d. map_of example_tickers (alias_loop example_tickers [''XXBTZUSD'', ''XBTUSD''])
            = Some d
         \<and> ticker_of_pair parseFloat_digits (Some example_tickers) ''XBTUSD''
             = Inr (market_record parseFloat_digits ''XBTUSD'' d)"
    by blast
  from ada_keys a1 a2 xbt_keys b1 b2 b3 b4 show ?thesis by (intro conjI)
qed

section \<open>Properties of the gateway, the Fan-out Channel and the Refresh Loop\<close>

subsection \<open>Failed fetches leave the store alone\<close>

lemma has_error_list_raises: "has_error_list f \<Longrightarrow> isl (makeRequest f)"
  by (auto simp: has_error_list_def makeRequest_def split: fetched.splits option.splits)

lemma getTickerData_raises:
  "has_error_list f \<Longrightarrow> \<exists>err. krakenApi_getTickerData pf pr f = Inl err"
  using has_error_list_raises[of f]
  by (auto simp: krakenApi_getTickerData_def isl_def)

lemma getOrderBook_raises:
  "has_error_list f \<Longrightarrow> \<exists>err. krakenApi_getOrderBook pf pr f = Inl err"
  using has_error_list_raises[of f]
  by (auto simp: krakenApi_getOrderBook_def isl_def)

lemma getRecentTrades_raises:
  "has_error_list f \<Longrightarrow> \<exists>err. krakenApi_getRecentTrades pf pr f = Inl err"
  using has_error_list_raises[of f]
  by (auto simp: krakenApi_getRecentTrades_def isl_def)

lemma getMultipleTickers_raises:
  "has_error_list f \<Longrightarrow> \<exists>err. krakenApi_getMultipleTickers pf prs f = Inl err"
  using has_error_list_raises[of f]
  by (auto simp: krakenApi_getMultipleTickers_def isl_def)

lemma issued_storage: "storage (issued ep s) = storage s"
  by (simp add: issued_def)

lemma api_ticker_failed:
  "krakenApi_getTickerData (parseFloat e) pr (ticker_ep e pr) = Inl err \<Longrightarrow>
   api_ticker e pr s = (Status500 ''Failed to fetch ticker data'' err, issued (PublicTicker pr) s)"
  by (simp add: api_ticker_def call_getTickerData_def)

lemma api_orderbook_failed:
  "krakenApi_getOrderBook (parseFloat e) pr (depth_ep e pr (query_count q 5)) = Inl err \<Longrightarrow>
   api_orderbook e pr q s
     = (Status500 ''Failed to fetch order book'' err, issued (PublicDepth pr (query_count q 5)) s)"
  by (simp add: api_orderbook_def call_getOrderBook_def)

lemma api_trades_failed:
  "krakenApi_getRecentTrades (parseFloat e) pr (trades_ep e pr (query_count q 100)) = Inl err \<Longrightarrow>
   api_trades e pr q s
     = (Status500 ''Failed to fetch recent trades'' err,
        issued (PublicTrades pr (query_count q 100)) s)"
  by (simp add: api_trades_def call_getRecentTrades_def)

lemma api_market_data_failed:
  "krakenApi_getMultipleTickers (parseFloat e) POPULAR_PAIRS (ticker_ep e (join POPULAR_PAIRS))
     = Inl err \<Longrightarrow>
   api_market_data e s
     = (Status500 ''Failed to fetch market data'' err, issued (PublicTicker (join POPULAR_PAIRS)) s)"
  by (simp add: api_market_data_def call_getMultipleTickers_def)

lemma api_refresh_failed:
  "krakenApi_getMultipleTickers (parseFloat e) POPULAR_PAIRS (ticker_ep e (join POPULAR_PAIRS))
     = Inl err \<Longrightarrow>
   api_refresh e s
     = (Status500 ''Failed to refresh data'' err, issued (PublicTicker (join POPULAR_PAIRS)) s)"
  by (simp add: api_refresh_def call_getMultipleTickers_def)

lemma broadcast_cycle_failed:
  "krakenApi_getMultipleTickers (parseFloat e) POPULAR_PAIRS (ticker_ep e (join POPULAR_PAIRS))
     = Inl err \<Longrightarrow>
   storage (broadcast_cycle e s) = storage s \<and> sent (broadcast_cycle e s) = sent s"
  by (simp add: broadcast_cycle_def call_getMultipleTickers_def issued_def)

lemma refresh_pair_storage:
  "storage (refresh_pair e pr s) =
     (case krakenApi_getOrderBook (parseFloat e) pr (depth_ep e pr 10) of
        Inl err \<Rightarrow> storage s
      | Inr orderBook \<Rightarrow>
          (case krakenApi_getRecentTrades (parseFloat e) pr (trades_ep e pr 50) of
             Inl err \<Rightarrow> storage s
           | Inr rt \<Rightarrow> setRecentTrades pr rt (setOrderBook pr orderBook (storage s))))"
  by (simp add: refresh_pair_def call_getOrderBook_def call_getRecentTrades_def issued_def
      split: sum.splits)

lemma refresh_pair_failed: "pair_failed e pr \<Longrightarrow> storage (refresh_pair e pr s) = storage s"
  by (auto simp: pair_failed_def refresh_pair_storage split: sum.splits)

text \<open>
  C5. For every upstream response whose envelope carries a non-empty error list, the
  request raises an error (for a response with an ok status, the error that carries
  the list), and the handler of the failed request leaves the Snapshot Store exactly
  as it was: so for each single-pair read, for the market-data read, for a force
  refresh and a timer cycle whose bulk fetch fails, and for the step of a force
  refresh for one pair when the order book or the trades of that pair fail.
\<close>

theorem error_list_raises_and_leaves_store:
  "(has_error_list f \<longrightarrow> isl (makeRequest f))
   \<and> (errs \<noteq> [] \<longrightarrow>
        makeRequest (Fetched \<lparr>ok = True, status = st, statusText = txt,
                               body = Some \<lparr>error = errs, result = r\<rparr>\<rparr>)
          = Inl (KrakenApiError errs))
   \<and> (has_error_list (ticker_ep e pr) \<longrightarrow>
        (\<exists>err. fst (api_ticker e pr s) = Status500 ''Failed to fetch ticker data'' err)
        \<and> storage (snd (api_ticker e pr s)) = storage s)
   \<and> (has_error_list (depth_ep e pr (query_count q 5)) \<longrightarrow>
        (\<exists>err. fst (api_orderbook e pr q s) = Status500 ''Failed to fetch order book'' err)
        \<and> storage (snd (api_orderbook e pr q s)) = storage s)
   \<and> (has_error_list (trades_ep e pr (query_count q 100)) \<longrightarrow>
        (\<exists>err. fst (api_trades e pr q s) = Status500 ''Failed to fetch recent trades'' err)
        \<and> storage (snd (api_trades e pr q s)) = storage s)
   \<and> (has_error_list (ticker_ep e (join POPULAR_PAIRS)) \<longrightarrow>
        (\<exists>err. fst (api_market_data e s) = Status500 ''Failed to fetch market data'' err)
        \<and> storage (snd (api_market_data e s)) = storage s
        \<and> (\<exists>err. fst (api_refresh e s) = Status500 ''Failed to refresh data'' err)
        \<and> storage (snd (api_refresh e s)) = storage s
        \<and> storage (broadcast_cycle e s) = storage s)
   \<and> (has_error_list (depth_ep e pr 10) \<or> has_error_list (trades_ep e pr 50) \<longrightarrow>
        storage (refresh_pair e pr s) = storage s)"
proof (intro conjI impI)
  assume "has_error_list f"
  then show "isl (makeRequest f)" by (rule has_error_list_raises)
next
  assume "errs \<noteq> []"
  then show "makeRequest (Fetched \<lparr>ok = True, status = st, statusText = txt,
                               body = Some \<lparr>error = errs, result = r\<rparr>\<rparr>)
          = Inl (KrakenApiError errs)"
    by (simp add: makeRequest_def)
next
  assume "has_error_list (ticker_ep e pr)"
  from getTickerData_raises[OF this, of "parseFloat e" pr] obtain err
    where "krakenApi_getTickerData (parseFloat e) pr (ticker_ep e pr) = Inl err" by blast
  note f = api_ticker_failed[OF this, of s]
  from f show "\<exists>err. fst (api_ticker e pr s) = Status500 ''Failed to fetch ticker data'' err"
    by simp
  from f show "storage (snd (api_ticker e pr s)) = storage s"
    by (simp add: issued_storage)
next
  assume "has_error_list (depth_ep e pr (query_count q 5))"
  from getOrderBook_raises[OF this, of "parseFloat e" pr] obtain err
    where "krakenApi_getOrderBook (parseFloat e) pr (depth_ep e pr (query_count q 5)) = Inl err"
    by blast
  note f = api_orderbook_failed[OF this, of s]
  from f show "\<exists>err. fst (api_orderbook e pr q s) = Status500 ''Failed to fetch order book'' err"
    by simp
  from f show "storage (snd (api_orderbook e pr q s)) = storage s"
    by (simp add: issued_storage)
next
  assume "has_error_list (trades_ep e pr (query_count q 100))"
  from getRecentTrades_raises[OF this, of "parseFloat e" pr] obtain err
    where "krakenApi_getRecentTrades (parseFloat e) pr (trades_ep e pr (query_count q 100))
      = Inl err"
    by blast
  note f = api_trades_failed[OF this, of s]
  from f show "\<exists>err. fst (api_trades e pr q s) = Status500 ''Failed to fetch recent trades'' err"
    by simp
  from f show "storage (snd (api_trades e pr q s)) = storage s"
    by (simp add: issued_storage)
next
  assume "has_error_list (ticker_ep e (join POPULAR_PAIRS))"
  from getMultipleTickers_raises[OF this, of "parseFloat e" POPULAR_PAIRS] obtain err
    where bulk: "krakenApi_getMultipleTickers (parseFloat e) POPULAR_PAIRS
        (ticker_ep e (join POPULAR_PAIRS)) = Inl err"
    by blast
  note m = api_market_data_failed[OF bulk, of s]
  note f = api_refresh_failed[OF bulk, of s]
  from m show "\<exists>err. fst (api_market_data e s) = Status500 ''Failed to fetch market data'' err"
    by simp
  from m show "storage (snd (api_market_data e s)) = storage s"
    by (simp add: issued_storage)
  from f show "\<exists>err. fst (api_refresh e s) = Status500 ''Failed to refresh data'' err"
    by simp
  from f show "storage (snd (api_refresh e s)) = storage s"
    by (simp add: issued_storage)
  from broadcast_cycle_failed[OF bulk, of s]
  show "storage (broadcast_cycle e s) = storage s" by simp
next
  assume "has_error_list (depth_ep e pr 10) \<or> has_error_list (trades_ep e pr 50)"
  then have "pair_failed e pr"
    using has_error_list_raises[of "depth_ep e pr 10"]
      has_error_list_raises[of "trades_ep e pr 50"]
    by (auto simp: pair_failed_def krakenApi_getOrderBook_def krakenApi_getRecentTrades_def
        isl_def)
  then show "storage (refresh_pair e pr s) = storage s" by (rule refresh_pair_failed)
qed

text \<open>
  The theorem at the envelope \<open>{error: ["Invalid arguments"], result: null}\<close>, sent by
  an exchange that answers every request with it.
\<close>

theorem error_list_raises_and_leaves_store_witness:
  "isl (makeRequest (error_response :: ticker_result fetched))
   \<and> makeRequest (error_response :: ticker_result fetched)
       = Inl (KrakenApiError [''Invalid arguments''])
   \<and> (\<exists>err. fst (api_ticker failing_env ''XBTUSD'' stale_server)
         = Status500 ''Failed to fetch ticker data'' err)
   \<and> storage (snd (api_ticker failing_env ''XBTUSD'' stale_server)) = storage stale_server
   \<and> storage (snd (api_orderbook failing_env ''XBTUSD'' None stale_server))
       = storage stale_server
   \<and> storage (snd (api_trades failing_env ''XBTUSD'' None stale_server)) = storage stale_server
   \<and> storage (snd (api_market_data failing_env stale_server)) = storage stale_server
   \<and> storage (snd (api_refresh failing_env stale_server)) = storage stale_server
   \<and> storage (broadcast_cycle failing_env (example_server [(1, OPEN)]))
       = storage (example_server [(1, OPEN)])
   \<and> storage (refresh_pair example_env ''XBTUSD'' stale_server) = storage stale_server"
proof -
  have h: "has_error_list (error_response :: 'r fetched)"
    by (simp add: has_error_list_def error_response_def)
  have ne: "[''Invalid arguments''] \<noteq> []" by simp
  have t: "has_error_list (ticker_ep failing_env prs)" for prs
    using h by (simp add: failing_env_def)
  have d: "has_error_list (depth_ep failing_env pr n)" for pr n
    using h by (simp add: failing_env_def)
  have r: "has_error_list (trades_ep failing_env pr n)" for pr n
    using h by (simp add: failing_env_def)
  have x: "has_error_list (depth_ep example_env ''XBTUSD'' 10)"
    using h by (simp add: example_env_def)
  note a = error_list_raises_and_leaves_store[of "error_response :: ticker_result fetched"
      "[''Invalid arguments'']" 200 "''OK''" "None :: ticker_result option"
      failing_env "''XBTUSD''" stale_server None]
  note b = error_list_raises_and_leaves_store[of "error_response :: ticker_result fetched"
      "[''Invalid arguments'']" 200 "''OK''" "None :: ticker_result option"
      failing_env "''XBTUSD''" "example_server [(1, OPEN)]" None]
  note c = error_list_raises_and_leaves_store[of "error_response :: ticker_result fetched"
      "[''Invalid arguments'']" 200 "''OK''" "None :: ticker_result option"
      example_env "''XBTUSD''" stale_server None]
  from a h have c1: "isl (makeRequest (error_response :: ticker_result fetched))" by blast
  from a ne have c2: "makeRequest (error_response :: ticker_result fetched)
       = Inl (KrakenApiError [''Invalid arguments''])"
    by (simp add: error_response_def)
  from a t have c3: "(\<exists>err. fst (api_ticker failing_env ''XBTUSD'' stale_server)
         = Status500 ''Failed to fetch ticker data'' err)
      \<and> storage (snd (api_ticker failing_env ''XBTUSD'' stale_server)) = storage stale_server"
    by blast
  from a d have c4: "storage (snd (api_orderbook failing_env ''XBTUSD'' None stale_server))
       = storage stale_server" by blast
  from a r have c5: "storage (snd (api_trades failing_env ''XBTUSD'' None stale_server))
       = storage stale_server" by blast
  from a t have c6: "storage (snd (api_market_data failing_env stale_server))
       = storage stale_server
     \<and> storage (snd (api_refresh failing_env stale_server)) = storage stale_server" by blast
  from b t have c7: "storage (broadcast_cycle failing_env (example_server [(1, OPEN)]))
       = storage (example_server [(1, OPEN)])" by blast
  from c x have c8: "storage (refresh_pair example_env ''XBTUSD'' stale_server)
       = storage stale_server" by blast
  from c1 c2 c3 c4 c5 c6 c7 c8 show ?thesis by (intro conjI) simp_all
qed

subsection \<open>The force refresh\<close>

lemma refresh_pair_frame:
  "requests (refresh_pair e pr s) = requests s @ [PublicDepth pr 10, PublicTrades pr 50]
   \<and> clients (refresh_pair e pr s) = clients s \<and> sent (refresh_pair e pr s) = sent s"
  by (simp add: refresh_pair_def call_getOrderBook_def call_getRecentTrades_def issued_def
      split: sum.splits)

lemma refresh_pairs_frame:
  "requests (refresh_pairs e prs s)
     = requests s @ concat (map (\<lambda>pr. [PublicDepth pr 10, PublicTrades pr 50]) prs)
   \<and> clients (refresh_pairs e prs s) = clients s \<and> sent (refresh_pairs e prs s) = sent s"
  by (induction prs arbitrary: s) (simp_all add: refresh_pair_frame)

lemma refresh_pair_keeps:
  "tickerData (storage (refresh_pair e pr s)) = tickerData (storage s)
   \<and> marketData (storage (refresh_pair e pr s)) = marketData (storage s)
   \<and> lastUpdated (storage (refresh_pair e pr s)) = lastUpdated (storage s)"
  by (simp add: refresh_pair_storage setRecentTrades_def setOrderBook_def split: sum.splits)

lemma refresh_pairs_keeps:
  "tickerData (storage (refresh_pairs e prs s)) = tickerData (storage s)
   \<and> marketData (storage (refresh_pairs e prs s)) = marketData (storage s)
   \<and> lastUpdated (storage (refresh_pairs e prs s)) = lastUpdated (storage s)"
  by (induction prs arbitrary: s) (simp_all add: refresh_pair_keeps)

lemma refresh_pair_other:
  "q \<noteq> pr \<Longrightarrow>
   getOrderBook (storage (refresh_pair e q s)) pr = getOrderBook (storage s) pr
   \<and> getRecentTrades (storage (refresh_pair e q s)) pr = getRecentTrades (storage s) pr"
  by (simp add: refresh_pair_storage getOrderBook_def getRecentTrades_def setOrderBook_def
      setRecentTrades_def update_conv' split: sum.splits)

lemma refresh_pair_succeeded:
  "krakenApi_getOrderBook (parseFloat e) pr (depth_ep e pr 10) = Inr b \<Longrightarrow>
   krakenApi_getRecentTrades (parseFloat e) pr (trades_ep e pr 50) = Inr t \<Longrightarrow>
   getOrderBook (storage (refresh_pair e pr s)) pr = Some b
   \<and> getRecentTrades (storage (refresh_pair e pr s)) pr = Some t"
  by (simp add: refresh_pair_storage getOrderBook_def getRecentTrades_def setOrderBook_def
      setRecentTrades_def update_conv')

lemma refresh_pairs_failed:
  "pair_failed e pr \<Longrightarrow>
   getOrderBook (storage (refresh_pairs e prs s)) pr = getOrderBook (storage s) pr
   \<and> getRecentTrades (storage (refresh_pairs e prs s)) pr = getRecentTrades (storage s) pr"
proof (induction prs arbitrary: s)
  case Nil
  show ?case by simp
next
  case (Cons q prs)
  have "getOrderBook (storage (refresh_pair e q s)) pr = getOrderBook (storage s) pr
      \<and> getRecentTrades (storage (refresh_pair e q s)) pr = getRecentTrades (storage s) pr"
  proof (cases "q = pr")
    case True
    with Cons.prems show ?thesis by (simp add: refresh_pair_failed)
  next
    case False
    then show ?thesis by (rule refresh_pair_other)
  qed
  with Cons.IH[OF Cons.prems, of "refresh_pair e q s"] show ?case by simp
qed

lemma refresh_pairs_all_failed:
  "list_all (pair_failed e) prs \<Longrightarrow> storage (refresh_pairs e prs s) = storage s"
  by (induction prs arbitrary: s) (simp_all add: refresh_pair_failed)

lemma refresh_pairs_preserved:
  assumes "krakenApi_getOrderBook (parseFloat e) pr (depth_ep e pr 10) = Inr b"
    and "krakenApi_getRecentTrades (parseFloat e) pr (trades_ep e pr 50) = Inr t"
    and "getOrderBook (storage s) pr = Some b \<and> getRecentTrades (storage s) pr = Some t"
  shows "getOrderBook (storage (refresh_pairs e prs s)) pr = Some b
     \<and> getRecentTrades (storage (refresh_pairs e prs s)) pr = Some t"
  using assms(3)
proof (induction prs arbitrary: s)
  case Nil
  then show ?case by simp
next
  case (Cons q prs)
  have "getOrderBook (storage (refresh_pair e q s)) pr = Some b
      \<and> getRecentTrades (storage (refresh_pair e q s)) pr = Some t"
  proof (cases "q = pr")
    case True
    with refresh_pair_succeeded[OF assms(1,2)] show ?thesis by simp
  next
    case False
    from refresh_pair_other[OF this] Cons.prems show ?thesis by simp
  qed
  from Cons.IH[OF this] show ?case by simp
qed

lemma refresh_pairs_succeeded:
  assumes "pr \<in> set prs"
    and "krakenApi_getOrderBook (parseFloat e) pr (depth_ep e pr 10) = Inr b"
    and "krakenApi_getRecentTrades (parseFloat e) pr (trades_ep e pr 50) = Inr t"
  shows "getOrderBook (storage (refresh_pairs e prs s)) pr = Some b
     \<and> getRecentTrades (storage (refresh_pairs e prs s)) pr = Some t"
  using assms(1)
proof (induction prs arbitrary: s)
  case Nil
  then show ?case by simp
next
  case (Cons q prs)
  show ?case
  proof (cases "q = pr")
    case True
    from refresh_pair_succeeded[OF assms(2,3), of s]
    have "getOrderBook (storage (refresh_pair e pr s)) pr = Some b
      \<and> getRecentTrades (storage (refresh_pair e pr s)) pr = Some t" .
    from refresh_pairs_preserved[OF assms(2,3) this, of prs] True show ?thesis by simp
  next
    case False
    with Cons.prems have "pr \<in> set prs" by simp
    from Cons.IH[OF this, of "refresh_pair e q s"] show ?thesis by simp
  qed
qed

text \<open>The state a force refresh starts its loop over the pairs in, and what it returns.\<close>

lemma api_refresh_succeeded:
  assumes "krakenApi_getMultipleTickers (parseFloat e) POPULAR_PAIRS
             (ticker_ep e (join POPULAR_PAIRS)) = Inr md"
  shows "api_refresh e s =
     (Json (True, ''Data refreshed successfully''),
      (refresh_pairs e POPULAR_PAIRS
         ((issued (PublicTicker (join POPULAR_PAIRS)) s)
            \<lparr>storage := setMarketData md (storage s)\<rparr>))
       \<lparr>storage := setLastUpdated (now e)
          (storage (refresh_pairs e POPULAR_PAIRS
             ((issued (PublicTicker (join POPULAR_PAIRS)) s)
                \<lparr>storage := setMarketData md (storage s)\<rparr>)))\<rparr>)"
  using assms
  by (simp add: api_refresh_def call_getMultipleTickers_def Let_def issued_def)

lemma get_after_setLastUpdated:
  "getOrderBook (setLastUpdated d st) pr = getOrderBook st pr
   \<and> getRecentTrades (setLastUpdated d st) pr = getRecentTrades st pr
   \<and> orderBooks (setLastUpdated d st) = orderBooks st
   \<and> recentTrades (setLastUpdated d st) = recentTrades st
   \<and> marketData (setLastUpdated d st) = marketData st
   \<and> lastUpdated (setLastUpdated d st) = Some d"
  by (simp add: setLastUpdated_def getOrderBook_def getRecentTrades_def)

lemma get_after_setMarketData:
  "getOrderBook (setMarketData md st) pr = getOrderBook st pr
   \<and> getRecentTrades (setMarketData md st) pr = getRecentTrades st pr
   \<and> orderBooks (setMarketData md st) = orderBooks st
   \<and> recentTrades (setMarketData md st) = recentTrades st
   \<and> marketData (setMarketData md st) = md"
  by (simp add: setMarketData_def getOrderBook_def getRecentTrades_def)

lemma bulk_example:
  "krakenApi_getMultipleTickers parseFloat_digits POPULAR_PAIRS (ok_response example_tickers)
     = Inr (map (\<lambda>pr. market_record parseFloat_digits pr (example_ticker ''100'' ''101''))
             POPULAR_PAIRS)"
  by (simp add: krakenApi_getMultipleTickers_def makeRequest_def ok_response_def
      ticker_of_pair_def object_prototype_names_def resolve_pairKey_def possibleKeys_def
      krakenPairMap_def example_tickers_def POPULAR_PAIRS_def)

text \<open>
  C6. In a force refresh over the configured pairs, a failure of the bulk ticker fetch
  aborts the whole refresh: the caller is answered with status 500 and the error, and
  nothing but the bulk request has happened. When the bulk fetch succeeds, the caller
  is answered with success, the order book and the trades of every configured pair are
  requested, and every pair whose two fetches succeed has its fresh order book and
  trades in the store afterwards, whichever other pairs failed.
\<close>

theorem refresh_isolates_pair_failures:
  "(krakenApi_getMultipleTickers (parseFloat e) POPULAR_PAIRS (ticker_ep e (join POPULAR_PAIRS))
      = Inl err \<longrightarrow>
      api_refresh e s
        = (Status500 ''Failed to refresh data'' err,
           issued (PublicTicker (join POPULAR_PAIRS)) s))
   \<and> (krakenApi_getMultipleTickers (parseFloat e) POPULAR_PAIRS
        (ticker_ep e (join POPULAR_PAIRS)) = Inr md \<longrightarrow>
      fst (api_refresh e s) = Json (True, ''Data refreshed successfully'')
      \<and> requests (snd (api_refresh e s))
          = requests s @ PublicTicker (join POPULAR_PAIRS)
              # concat (map (\<lambda>pr. [PublicDepth pr 10, PublicTrades pr 50]) POPULAR_PAIRS)
      \<and> (\<forall>pr b t.
            pr \<in> set POPULAR_PAIRS
            \<and> krakenApi_getOrderBook (parseFloat e) pr (depth_ep e pr 10) = Inr b
            \<and> krakenApi_getRecentTrades (parseFloat e) pr (trades_ep e pr 50) = Inr t
          \<longrightarrow> getOrderBook (storage (snd (api_refresh e s))) pr = Some b
              \<and> getRecentTrades (storage (snd (api_refresh e s))) pr = Some t))"
proof (intro conjI impI allI)
  assume "krakenApi_getMultipleTickers (parseFloat e) POPULAR_PAIRS
      (ticker_ep e (join POPULAR_PAIRS)) = Inl err"
  then show "api_refresh e s
        = (Status500 ''Failed to refresh data'' err,
           issued (PublicTicker (join POPULAR_PAIRS)) s)"
    by (rule api_refresh_failed)
next
  assume bulk: "krakenApi_getMultipleTickers (parseFloat e) POPULAR_PAIRS
      (ticker_ep e (join POPULAR_PAIRS)) = Inr md"
  note r = api_refresh_succeeded[OF bulk, of s]
  from r show "fst (api_refresh e s) = Json (True, ''Data refreshed successfully'')"
    by simp
  from r show "requests (snd (api_refresh e s))
          = requests s @ PublicTicker (join POPULAR_PAIRS)
              # concat (map (\<lambda>pr. [PublicDepth pr 10, PublicTrades pr 50]) POPULAR_PAIRS)"
    by (simp add: refresh_pairs_frame issued_def)
  fix pr b t
  assume a: "pr \<in> set POPULAR_PAIRS
            \<and> krakenApi_getOrderBook (parseFloat e) pr (depth_ep e pr 10) = Inr b
            \<and> krakenApi_getRecentTrades (parseFloat e) pr (trades_ep e pr 50) = Inr t"
  then have m: "pr \<in> set POPULAR_PAIRS"
    and o: "krakenApi_getOrderBook (parseFloat e) pr (depth_ep e pr 10) = Inr b"
    and d: "krakenApi_getRecentTrades (parseFloat e) pr (trades_ep e pr 50) = Inr t"
    by simp_all
  from refresh_pairs_succeeded[OF m o d] r
  show "getOrderBook (storage (snd (api_refresh e s))) pr = Some b"
    and "getRecentTrades (storage (snd (api_refresh e s))) pr = Some t"
    by (simp_all add: get_after_setLastUpdated)
qed

text \<open>
  The theorem at an exchange that refuses everything, and at one that refuses the
  order book of XBTUSD alone: the refresh still stores the order book and the trades
  of ETHUSD, the pair after it.
\<close>

theorem refresh_isolates_pair_failures_witness:
  "api_refresh failing_env stale_server
     = (Status500 ''Failed to refresh data'' (KrakenApiError [''Invalid arguments'']),
        issued (PublicTicker (join POPULAR_PAIRS)) stale_server)
   \<and> pair_failed example_env ''XBTUSD''
   \<and> fst (api_refresh example_env stale_server) = Json (True, ''Data refreshed successfully'')
   \<and> getOrderBook (storage (snd (api_refresh example_env stale_server))) ''ETHUSD''
       = Some \<lparr>OrderBook.pair = ''ETHUSD'',
               asks = [\<lparr>OrderBookEntry.price = Num 101, volume = Num 2, timestamp = 7\<rparr>],
               bids = [\<lparr>OrderBookEntry.price = Num 100, volume = Num 3, timestamp = 7\<rparr>],
               spread = Num 1, spreadPercent = Num 1\<rparr>
   \<and> getRecentTrades (storage (snd (api_refresh example_env stale_server))) ''ETHUSD''
       = Some \<lparr>RecentTrades.pair = ''ETHUSD'',
               trades = [\<lparr>Trade.price = Num 100, volume = Num 1, time = 5, side = buy\<rparr>]\<rparr>"
proof -
  have fail: "krakenApi_getMultipleTickers (parseFloat failing_env) POPULAR_PAIRS
      (ticker_ep failing_env (join POPULAR_PAIRS)) = Inl (KrakenApiError [''Invalid arguments''])"
    by (simp add: failing_env_def krakenApi_getMultipleTickers_def makeRequest_def
        error_response_def)
  have bulk: "krakenApi_getMultipleTickers (parseFloat example_env) POPULAR_PAIRS
      (ticker_ep example_env (join POPULAR_PAIRS))
     = Inr (map (\<lambda>pr. market_record parseFloat_digits pr (example_ticker ''100'' ''101''))
             POPULAR_PAIRS)"
    using bulk_example by (simp add: example_env_def)
  have xbt: "pair_failed example_env ''XBTUSD''"
    by (simp add: pair_failed_def example_env_def krakenApi_getOrderBook_def makeRequest_def
        error_response_def)
  have eth: "''ETHUSD'' \<in> set POPULAR_PAIRS" by (simp add: POPULAR_PAIRS_def)
  have v: "parseFloat_digits ''101'' = Num 101 \<and> parseFloat_digits ''100'' = Num 100
      \<and> parseFloat_digits ''1'' = Num 1 \<and> parseFloat_digits ''2'' = Num 2
      \<and> parseFloat_digits ''3'' = Num 3"
    by (simp add: parseFloat_digits_def digit_table_def)
  have ob: "krakenApi_getOrderBook (parseFloat example_env) ''ETHUSD''
      (depth_ep example_env ''ETHUSD'' 10)
     = Inr \<lparr>OrderBook.pair = ''ETHUSD'',
               asks = [\<lparr>OrderBookEntry.price = Num 101, volume = Num 2, timestamp = 7\<rparr>],
               bids = [\<lparr>OrderBookEntry.price = Num 100, volume = Num 3, timestamp = 7\<rparr>],
               spread = Num 1, spreadPercent = Num 1\<rparr>"
    using v by (simp add: example_env_def krakenApi_getOrderBook_def makeRequest_def
        ok_response_def example_depth_def level_entry_def Let_def)
  have tr: "krakenApi_getRecentTrades (parseFloat example_env) ''ETHUSD''
      (trades_ep example_env ''ETHUSD'' 50)
     = Inr \<lparr>RecentTrades.pair = ''ETHUSD'',
               trades = [\<lparr>Trade.price = Num 100, volume = Num 1, time = 5, side = buy\<rparr>]\<rparr>"
    using v by (simp add: example_env_def krakenApi_getRecentTrades_def makeRequest_def
        ok_response_def processed_trade_def)
  note a = refresh_isolates_pair_failures[of failing_env
      "KrakenApiError [''Invalid arguments'']" stale_server]
  note b = refresh_isolates_pair_failures[of example_env _ stale_server
      "map (\<lambda>pr. market_record parseFloat_digits pr (example_ticker ''100'' ''101''))
             POPULAR_PAIRS"]
  from a fail have c1: "api_refresh failing_env stale_server
     = (Status500 ''Failed to refresh data'' (KrakenApiError [''Invalid arguments'']),
        issued (PublicTicker (join POPULAR_PAIRS)) stale_server)" by blast
  from b bulk have c2: "fst (api_refresh example_env stale_server)
      = Json (True, ''Data refreshed successfully'')" by blast
  from b bulk eth ob tr
  have c3: "getOrderBook (storage (snd (api_refresh example_env stale_server))) ''ETHUSD''
       = Some \<lparr>OrderBook.pair = ''ETHUSD'',
               asks = [\<lparr>OrderBookEntry.price = Num 101, volume = Num 2, timestamp = 7\<rparr>],
               bids = [\<lparr>OrderBookEntry.price = Num 100, volume = Num 3, timestamp = 7\<rparr>],
               spread = Num 1, spreadPercent = Num 1\<rparr>
   \<and> getRecentTrades (storage (snd (api_refresh example_env stale_server))) ''ETHUSD''
       = Some \<lparr>RecentTrades.pair = ''ETHUSD'',
               trades = [\<lparr>Trade.price = Num 100, volume = Num 1, time = 5, side = buy\<rparr>]\<rparr>"
    by blast
  from c1 xbt c2 c3 show ?thesis by (intro conjI) simp_all
qed

text \<open>
  C10. Whenever the bulk ticker fetch of a force refresh succeeds, the refresh answers
  with success, stores the market data and sets \<open>lastUpdated\<close> to the current time,
  whatever the fetches of the pairs did. For each pair whose order book or trades
  failed, the order book and the trades the store held for it before the refresh are
  still there, unchanged; when every configured pair failed, all order books and all
  trades of the store are as they were.
\<close>

theorem refresh_succeeds_despite_pair_failures:
  assumes "krakenApi_getMultipleTickers (parseFloat e) POPULAR_PAIRS
             (ticker_ep e (join POPULAR_PAIRS)) = Inr md"
  shows "fst (api_refresh e s) = Json (True, ''Data refreshed successfully'')
     \<and> getLastUpdated (storage (snd (api_refresh e s))) = Some (now e)
     \<and> getMarketData (storage (snd (api_refresh e s))) = md
     \<and> (\<forall>pr. pair_failed e pr \<longrightarrow>
          getOrderBook (storage (snd (api_refresh e s))) pr = getOrderBook (storage s) pr
          \<and> getRecentTrades (storage (snd (api_refresh e s))) pr
              = getRecentTrades (storage s) pr)
     \<and> (list_all (pair_failed e) POPULAR_PAIRS \<longrightarrow>
          orderBooks (storage (snd (api_refresh e s))) = orderBooks (storage s)
          \<and> recentTrades (storage (snd (api_refresh e s))) = recentTrades (storage s))"
proof (intro conjI allI impI)
  note r = api_refresh_succeeded[OF assms, of s]
  from r show "fst (api_refresh e s) = Json (True, ''Data refreshed successfully'')"
    by simp
  from r show "getLastUpdated (storage (snd (api_refresh e s))) = Some (now e)"
    by (simp add: getLastUpdated_def get_after_setLastUpdated)
  from r show "getMarketData (storage (snd (api_refresh e s))) = md"
    by (simp add: getMarketData_def get_after_setLastUpdated refresh_pairs_keeps
        get_after_setMarketData)
  {
    fix pr assume "pair_failed e pr"
    from refresh_pairs_failed[OF this] r
    show "getOrderBook (storage (snd (api_refresh e s))) pr = getOrderBook (storage s) pr"
      and "getRecentTrades (storage (snd (api_refresh e s))) pr
              = getRecentTrades (storage s) pr"
      by (simp_all add: get_after_setLastUpdated get_after_setMarketData)
  }
  assume "list_all (pair_failed e) POPULAR_PAIRS"
  from refresh_pairs_all_failed[OF this] r
  show "orderBooks (storage (snd (api_refresh e s))) = orderBooks (storage s)"
    and "recentTrades (storage (snd (api_refresh e s))) = recentTrades (storage s)"
    by (simp_all add: get_after_setLastUpdated get_after_setMarketData)
qed

text \<open>
  The theorem at a store that holds an order book and trades of XBTUSD, refreshed
  against an exchange that refuses the order book of XBTUSD, and against one that
  refuses every order book and all trades.
\<close>

theorem refresh_succeeds_despite_pair_failures_witness:
  "fst (api_refresh example_env stale_server) = Json (True, ''Data refreshed successfully'')
   \<and> getLastUpdated (storage (snd (api_refresh example_env stale_server))) = Some 2000
   \<and> getOrderBook (storage (snd (api_refresh example_env stale_server))) ''XBTUSD''
       = Some stale_book
   \<and> getRecentTrades (storage (snd (api_refresh example_env stale_server))) ''XBTUSD''
       = Some stale_trades
   \<and> fst (api_refresh tickers_only_env stale_server)
       = Json (True, ''Data refreshed successfully'')
   \<and> getLastUpdated (storage (snd (api_refresh tickers_only_env stale_server))) = Some 2000
   \<and> orderBooks (storage (snd (api_refresh tickers_only_env stale_server)))
       = [(''XBTUSD'', stale_book)]
   \<and> recentTrades (storage (snd (api_refresh tickers_only_env stale_server)))
       = [(''XBTUSD'', stale_trades)]"
proof -
  have bulk: "krakenApi_getMultipleTickers (parseFloat example_env) POPULAR_PAIRS
      (ticker_ep example_env (join POPULAR_PAIRS))
     = Inr (map (\<lambda>pr. market_record parseFloat_digits pr (example_ticker ''100'' ''101''))
             POPULAR_PAIRS)"
    using bulk_example by (simp add: example_env_def)
  have bulk': "krakenApi_getMultipleTickers (parseFloat tickers_only_env) POPULAR_PAIRS
      (ticker_ep tickers_only_env (join POPULAR_PAIRS))
     = Inr (map (\<lambda>pr. market_record parseFloat_digits pr (example_ticker ''100'' ''101''))
             POPULAR_PAIRS)"
    using bulk_example by (simp add: tickers_only_env_def)
  have xbt: "pair_failed example_env ''XBTUSD''"
    by (simp add: pair_failed_def example_env_def krakenApi_getOrderBook_def makeRequest_def
        error_response_def)
  have every: "list_all (pair_failed tickers_only_env) POPULAR_PAIRS"
    by (simp add: pair_failed_def tickers_only_env_def krakenApi_getOrderBook_def
        makeRequest_def error_response_def POPULAR_PAIRS_def)
  have before: "getOrderBook (storage stale_server) ''XBTUSD'' = Some stale_book
      \<and> getRecentTrades (storage stale_server) ''XBTUSD'' = Some stale_trades
      \<and> orderBooks (storage stale_server) = [(''XBTUSD'', stale_book)]
      \<and> recentTrades (storage stale_server) = [(''XBTUSD'', stale_trades)]
      \<and> now example_env = 2000 \<and> now tickers_only_env = 2000"
    by (simp add: stale_server_def getOrderBook_def getRecentTrades_def example_env_def
        tickers_only_env_def)
  note a = refresh_succeeds_despite_pair_failures[OF bulk, of stale_server]
  note b = refresh_succeeds_despite_pair_failures[OF bulk', of stale_server]
  from a have a1: "fst (api_refresh example_env stale_server)
      = Json (True, ''Data refreshed successfully'')" by blast
  from a before
  have a2: "getLastUpdated (storage (snd (api_refresh example_env stale_server))) = Some 2000"
    by simp
  from a xbt before
  have a3: "getOrderBook (storage (snd (api_refresh example_env stale_server))) ''XBTUSD''
       = Some stale_book
     \<and> getRecentTrades (storage (snd (api_refresh example_env stale_server))) ''XBTUSD''
       = Some stale_trades"
    by simp
  from b have b1: "fst (api_refresh tickers_only_env stale_server)
       = Json (True, ''Data refreshed successfully'')" by blast
  from b before
  have b2: "getLastUpdated (storage (snd (api_refresh tickers_only_env stale_server)))
      = Some 2000"
    by simp
  from b every before
  have b3: "orderBooks (storage (snd (api_refresh tickers_only_env stale_server)))
       = [(''XBTUSD'', stale_book)]
     \<and> recentTrades (storage (snd (api_refresh tickers_only_env stale_server)))
       = [(''XBTUSD'', stale_trades)]"
    by simp
  from a1 a2 a3 b1 b2 b3 show ?thesis by (intro conjI) simp_all
qed

subsection \<open>The periodic broadcast\<close>

lemma broadcast_cycle_lastUpdated:
  "lastUpdated (storage (broadcast_cycle e s)) = lastUpdated (storage s)"
  by (simp add: broadcast_cycle_def call_getMultipleTickers_def issued_def broadcast_def
      setMarketData_def split: sum.splits)

text \<open>
  C8 (as stated, refuted). The timer fires while the only connection of the server is
  closing, so that no connection is open: the cycle still requests the tickers
  upstream and writes them into the store; it sends nothing.
\<close>

theorem broadcast_cycle_fetches_without_open_client:
  "open_clients (example_server [(1, CLOSING)]) = []
   \<and> requests (example_server [(1, CLOSING)]) = []
   \<and> requests (broadcast_cycle example_env (example_server [(1, CLOSING)]))
       = [PublicTicker ''XBTUSD,ETHUSD,ADAUSD,DOTUSD,SOLUSD,MATICUSD,LINKUSD,UNIUSD'']
   \<and> marketData (storage (example_server [(1, CLOSING)])) = []
   \<and> marketData (storage (broadcast_cycle example_env (example_server [(1, CLOSING)])))
       = map (\<lambda>pr. market_record parseFloat_digits pr (example_ticker ''100'' ''101''))
           POPULAR_PAIRS
   \<and> sent (broadcast_cycle example_env (example_server [(1, CLOSING)])) = []"
proof -
  have bulk: "krakenApi_getMultipleTickers (parseFloat example_env) POPULAR_PAIRS
      (ticker_ep example_env (join POPULAR_PAIRS))
     = Inr (map (\<lambda>pr. market_record parseFloat_digits pr (example_ticker ''100'' ''101''))
             POPULAR_PAIRS)"
    using bulk_example by (simp add: example_env_def)
  have j: "join POPULAR_PAIRS = ''XBTUSD,ETHUSD,ADAUSD,DOTUSD,SOLUSD,MATICUSD,LINKUSD,UNIUSD''"
    by (simp add: POPULAR_PAIRS_def)
  show ?thesis
    using bulk j
    by (simp add: broadcast_cycle_def call_getMultipleTickers_def issued_def broadcast_def
        open_clients_def example_server_def MemStorage_new_def setMarketData_def)
qed

lemma concat_map_empty: "concat (map (\<lambda>x. []) xs) = []"
  by (induction xs) simp_all

text \<open>
  C8 (amended). Whenever the periodic refresh timer fires while the server has no
  connection at all (\<open>wss.clients\<close> is empty), the cycle does nothing: no upstream
  request is made, the Snapshot Store is not written and nothing is sent. Whenever it
  fires while \<open>wss.clients\<close> is not empty, be its connections open or not, the cycle
  makes the bulk ticker request. If that fetch succeeds, the cycle stores the market
  data and sends each ticker to the open connections only, so to nobody when no
  connection is open; if it fails, the store is not written and nothing is sent.
\<close>

theorem broadcast_cycle_idle_only_without_clients:
  "(clients s = [] \<longrightarrow>
      broadcast_cycle e s = s
      \<and> requests (broadcast_cycle e s) = requests s
      \<and> storage (broadcast_cycle e s) = storage s
      \<and> sent (broadcast_cycle e s) = sent s)
   \<and> (clients s \<noteq> [] \<longrightarrow>
      requests (broadcast_cycle e s) = requests s @ [PublicTicker (join POPULAR_PAIRS)]
      \<and> (\<forall>md. krakenApi_getMultipleTickers (parseFloat e) POPULAR_PAIRS
                 (ticker_ep e (join POPULAR_PAIRS)) = Inr md \<longrightarrow>
            storage (broadcast_cycle e s) = setMarketData md (storage s)
            \<and> sent (broadcast_cycle e s)
                = sent s @ concat (map (\<lambda>ticker.
                      map (\<lambda>client.
                            (client, \<lparr>type = type_ticker, pair = MarketData.pair ticker,
                                      data = data_MarketData ticker\<rparr>))
                        (open_clients s))
                    md)
            \<and> (open_clients s = [] \<longrightarrow> sent (broadcast_cycle e s) = sent s))
      \<and> (\<forall>err. krakenApi_getMultipleTickers (parseFloat e) POPULAR_PAIRS
                  (ticker_ep e (join POPULAR_PAIRS)) = Inl err \<longrightarrow>
            storage (broadcast_cycle e s) = storage s
            \<and> sent (broadcast_cycle e s) = sent s))"
proof (intro conjI impI allI)
  assume "clients s = []"
  then show "broadcast_cycle e s = s"
    and "requests (broadcast_cycle e s) = requests s"
    and "storage (broadcast_cycle e s) = storage s"
    and "sent (broadcast_cycle e s) = sent s"
    by (simp_all add: broadcast_cycle_def)
next
  assume "clients s \<noteq> []"
  then show "requests (broadcast_cycle e s) = requests s @ [PublicTicker (join POPULAR_PAIRS)]"
    by (simp add: broadcast_cycle_def call_getMultipleTickers_def issued_def broadcast_def
        split: sum.splits)
next
  fix md
  assume c: "clients s \<noteq> []"
    and bulk: "krakenApi_getMultipleTickers (parseFloat e) POPULAR_PAIRS
                 (ticker_ep e (join POPULAR_PAIRS)) = Inr md"
  from c bulk show st: "storage (broadcast_cycle e s) = setMarketData md (storage s)"
    by (simp add: broadcast_cycle_def call_getMultipleTickers_def issued_def broadcast_def)
  from c bulk show sn: "sent (broadcast_cycle e s)
                = sent s @ concat (map (\<lambda>ticker.
                      map (\<lambda>client.
                            (client, \<lparr>type = type_ticker, pair = MarketData.pair ticker,
                                      data = data_MarketData ticker\<rparr>))
                        (open_clients s))
                    md)"
    by (simp add: broadcast_cycle_def call_getMultipleTickers_def issued_def broadcast_def
        open_clients_def)
  assume "open_clients s = []"
  with sn show "sent (broadcast_cycle e s) = sent s"
    by (simp add: concat_map_empty)
next
  fix err
  assume c: "clients s \<noteq> []"
    and bulk: "krakenApi_getMultipleTickers (parseFloat e) POPULAR_PAIRS
                  (ticker_ep e (join POPULAR_PAIRS)) = Inl err"
  from broadcast_cycle_failed[OF bulk, of s]
  show "storage (broadcast_cycle e s) = storage s"
    and "sent (broadcast_cycle e s) = sent s"
    by simp_all
qed

text \<open>
  The theorem at a server without connections, and at a server whose only connection
  is closing: against an exchange that answers, and against one that refuses.
\<close>

theorem broadcast_cycle_idle_only_without_clients_witness:
  "clients (example_server []) = []
   \<and> broadcast_cycle example_env (example_server []) = example_server []
   \<and> requests (broadcast_cycle example_env (example_server [])) = requests (example_server [])
   \<and> clients (example_server [(1, CLOSING)]) \<noteq> []
   \<and> open_clients (example_server [(1, CLOSING)]) = []
   \<and> requests (broadcast_cycle example_env (example_server [(1, CLOSING)]))
       = requests (example_server [(1, CLOSING)]) @ [PublicTicker (join POPULAR_PAIRS)]
   \<and> storage (broadcast_cycle example_env (example_server [(1, CLOSING)]))
       = setMarketData
           (map (\<lambda>pr. market_record parseFloat_digits pr (example_ticker ''100'' ''101''))
              POPULAR_PAIRS)
           (storage (example_server [(1, CLOSING)]))
   \<and> sent (broadcast_cycle example_env (example_server [(1, CLOSING)]))
       = sent (example_server [(1, CLOSING)])
   \<and> requests (broadcast_cycle failing_env (example_server [(1, CLOSING)]))
       = requests (example_server [(1, CLOSING)]) @ [PublicTicker (join POPULAR_PAIRS)]
   \<and> storage (broadcast_cycle failing_env (example_server [(1, CLOSING)]))
       = storage (example_server [(1, CLOSING)])
   \<and> sent (broadcast_cycle failing_env (example_server [(1, CLOSING)]))
       = sent (example_server [(1, CLOSING)])"
proof -
  have none: "clients (example_server []) = []" by (simp add: example_server_def)
  have some: "clients (example_server [(1, CLOSING)]) \<noteq> []"
    by (simp add: example_server_def)
  have closed: "open_clients (example_server [(1, CLOSING)]) = []"
    by (simp add: open_clients_def example_server_def)
  have bulk: "krakenApi_getMultipleTickers (parseFloat example_env) POPULAR_PAIRS
      (ticker_ep example_env (join POPULAR_PAIRS))
     = Inr (map (\<lambda>pr. market_record parseFloat_digits pr (example_ticker ''100'' ''101''))
             POPULAR_PAIRS)"
    using bulk_example by (simp add: example_env_def)
  have fail: "krakenApi_getMultipleTickers (parseFloat failing_env) POPULAR_PAIRS
      (ticker_ep failing_env (join POPULAR_PAIRS)) = Inl (KrakenApiError [''Invalid arguments''])"
    by (simp add: failing_env_def krakenApi_getMultipleTickers_def makeRequest_def
        error_response_def)
  note a = broadcast_cycle_idle_only_without_clients[of "example_server []" example_env]
  note b = broadcast_cycle_idle_only_without_clients[of "example_server [(1, CLOSING)]"
      example_env]
  note c = broadcast_cycle_idle_only_without_clients[of "example_server [(1, CLOSING)]"
      failing_env]
  from a none
  have a1: "broadcast_cycle example_env (example_server []) = example_server []
      \<and> requests (broadcast_cycle example_env (example_server []))
          = requests (example_server [])"
    by blast
  from b some
  have b1: "requests (broadcast_cycle example_env (example_server [(1, CLOSING)]))
       = requests (example_server [(1, CLOSING)]) @ [PublicTicker (join POPULAR_PAIRS)]"
    by blast
  from b some bulk
  have b2: "storage (broadcast_cycle example_env (example_server [(1, CLOSING)]))
       = setMarketData
           (map (\<lambda>pr. market_record parseFloat_digits pr (example_ticker ''100'' ''101''))
              POPULAR_PAIRS)
           (storage (example_server [(1, CLOSING)]))"
    by blast
  from b some bulk closed
  have b3: "sent (broadcast_cycle example_env (example_server [(1, CLOSING)]))
       = sent (example_server [(1, CLOSING)])"
    by blast
  from c some
  have c1: "requests (broadcast_cycle failing_env (example_server [(1, CLOSING)]))
       = requests (example_server [(1, CLOSING)]) @ [PublicTicker (join POPULAR_PAIRS)]"
    by blast
  from c some fail
  have c2: "storage (broadcast_cycle failing_env (example_server [(1, CLOSING)]))
       = storage (example_server [(1, CLOSING)])
     \<and> sent (broadcast_cycle failing_env (example_server [(1, CLOSING)]))
       = sent (example_server [(1, CLOSING)])"
    by blast
  from none a1 some closed b1 b2 b3 c1 c2 show ?thesis by (intro conjI) simp_all
qed

text \<open>
  C4 (the code at the failing input). A server whose store was last refreshed at 1000
  has one open connection. The timer fires at 2000 and the bulk fetch succeeds: the
  cycle replaces the market data of the store and broadcasts it, and \<open>lastUpdated\<close>
  is still 1000. The market-data read and the force refresh, run in the same state at
  the same time, set it to 2000.
\<close>

theorem timer_refresh_keeps_lastUpdated:
  "now example_env = 2000
   \<and> getLastUpdated (storage (example_server [(1, OPEN)])) = Some 1000
   \<and> getMarketData (storage (example_server [(1, OPEN)])) = []
   \<and> getMarketData (storage (broadcast_cycle example_env (example_server [(1, OPEN)])))
       = map (\<lambda>pr. market_record parseFloat_digits pr (example_ticker ''100'' ''101''))
           POPULAR_PAIRS
   \<and> length (sent (broadcast_cycle example_env (example_server [(1, OPEN)]))) = 8
   \<and> getLastUpdated (storage (broadcast_cycle example_env (example_server [(1, OPEN)])))
       = Some 1000
   \<and> getLastUpdated (storage (snd (api_market_data example_env (example_server [(1, OPEN)]))))
       = Some 2000
   \<and> getLastUpdated (storage (snd (api_refresh example_env (example_server [(1, OPEN)]))))
       = Some 2000"
proof -
  have bulk: "krakenApi_getMultipleTickers (parseFloat example_env) POPULAR_PAIRS
      (ticker_ep example_env (join POPULAR_PAIRS))
     = Inr (map (\<lambda>pr. market_record parseFloat_digits pr (example_ticker ''100'' ''101''))
             POPULAR_PAIRS)"
    using bulk_example by (simp add: example_env_def)
  have n: "now example_env = 2000" by (simp add: example_env_def)
  have before: "getLastUpdated (storage (example_server [(1, OPEN)])) = Some 1000
      \<and> getMarketData (storage (example_server [(1, OPEN)])) = []"
    by (simp add: example_server_def MemStorage_new_def getLastUpdated_def getMarketData_def)
  have cyc: "getMarketData (storage (broadcast_cycle example_env (example_server [(1, OPEN)])))
       = map (\<lambda>pr. market_record parseFloat_digits pr (example_ticker ''100'' ''101''))
           POPULAR_PAIRS
     \<and> length (sent (broadcast_cycle example_env (example_server [(1, OPEN)]))) = 8"
    using bulk
    by (simp add: broadcast_cycle_def call_getMultipleTickers_def issued_def broadcast_def
        open_clients_def example_server_def setMarketData_def getMarketData_def
        POPULAR_PAIRS_def)
  have kept: "getLastUpdated (storage (broadcast_cycle example_env (example_server [(1, OPEN)])))
       = Some 1000"
    using before by (simp add: getLastUpdated_def broadcast_cycle_lastUpdated)
  have md: "getLastUpdated (storage (snd (api_market_data example_env
      (example_server [(1, OPEN)])))) = Some 2000"
    using bulk n
    by (simp add: api_market_data_def call_getMultipleTickers_def getLastUpdated_def
        get_after_setLastUpdated)
  have rf: "getLastUpdated (storage (snd (api_refresh example_env
      (example_server [(1, OPEN)])))) = Some 2000"
    using api_refresh_succeeded[OF bulk, of "example_server [(1, OPEN)]"] n
    by (simp add: getLastUpdated_def get_after_setLastUpdated)
  from n before cyc kept md rf show ?thesis by (intro conjI) simp_all
qed

subsection \<open>The subscribe message\<close>

lemma initial_push_no_request:
  "requests (initial_push e ws pr s) = requests s
   \<and> storage (initial_push e ws pr s) = storage s
   \<and> clients (initial_push e ws pr s) = clients s"
  by (simp add: initial_push_def or_else_def truthy_def async_def)

lemma on_message_no_request:
  "requests (on_message e ws m s) = requests s \<and> storage (on_message e ws m s) = storage s"
proof -
  have "requests (initial_pushes e ws prs s) = requests s
      \<and> storage (initial_pushes e ws prs s) = storage s" for prs
    by (induction prs arbitrary: s) (simp_all add: initial_push_no_request)
  then show ?thesis
    by (simp add: on_message_def split: client_message.splits)
qed

text \<open>
  C2 (the code at the failing input). A client with an open connection subscribes to
  XBTUSD while the store holds nothing for that pair. The exchange would answer a
  ticker request for XBTUSD, but none is made: the three messages of the initial push
  are sent without data, and the list of upstream requests stays empty. The left
  operand of each \<open>||\<close> is the promise of an \<open>async\<close> method of the store, which is
  truthy, so the upstream fetch on the right is never evaluated.
\<close>

theorem subscribe_on_empty_store_never_fetches:
  "getTickerData (storage (example_server [(1, OPEN)])) ''XBTUSD'' = None
   \<and> getOrderBook (storage (example_server [(1, OPEN)])) ''XBTUSD'' = None
   \<and> getRecentTrades (storage (example_server [(1, OPEN)])) ''XBTUSD'' = None
   \<and> krakenApi_getTickerData (parseFloat example_env) ''XBTUSD''
        (ticker_ep example_env ''XBTUSD'')
       = Inr (ticker_record parseFloat_digits ''XBTUSD'' (example_ticker ''100'' ''101''))
   \<and> sent (on_message example_env 1 (Subscribe (Some [''XBTUSD'']))
             (example_server [(1, OPEN)]))
       = [(1, \<lparr>type = type_ticker, pair = ''XBTUSD'', data = data_undefined\<rparr>),
          (1, \<lparr>type = type_orderBook, pair = ''XBTUSD'', data = data_undefined\<rparr>),
          (1, \<lparr>type = type_trades, pair = ''XBTUSD'', data = data_undefined\<rparr>)]
   \<and> requests (on_message example_env 1 (Subscribe (Some [''XBTUSD'']))
                 (example_server [(1, OPEN)])) = []"
  by (simp add: on_message_def initial_push_def or_else_def truthy_def async_def
      example_server_def MemStorage_new_def getTickerData_def getOrderBook_def
      getRecentTrades_def example_env_def krakenApi_getTickerData_def makeRequest_def
      ok_response_def example_tickers_def)

end
